theory Spec2Isabelle
  imports Main
begin

section \<open>The game engine of src/lib/gameEngine.ts\<close>

text \<open>
  The engine is one class, \<open>GameEngine\<close>, owning one \<open>GameState\<close> object. The model
  follows the TypeScript source field by field and statement by statement.

  \<^item> JavaScript numbers are modelled as \<open>int\<close>: the development is about integer
    amounts (no fractions, no NaN, no magnitudes beyond 2^53).
  \<^item> The four collections of a state (\<open>inventory\<close>, \<open>activeQuests\<close>,
    \<open>completedQuests\<close>, \<open>crystalsRestored\<close>) are JavaScript arrays, that is
    references to mutable objects: \<open>push\<close> and \<open>splice\<close> change the array in place
    and every holder of the reference sees the change. A state record therefore holds
    references, and the arrays live in a store, one component per element type.
  \<^item> A state object has an identity as well: the constructor and \<open>getState\<close> each
    build a new object with the spread syntax. The state objects live in a store of
    their own, and these two operations allocate in it. The mutators assign to fields
    of the object \<open>this.state\<close> and never replace it; they are given as functions of
    the store of arrays and of the contents of that object.
  \<^item> Items and quests are stored in the arrays by value. The one write to a quest
    object, \<open>quest.completed = true\<close>, is modelled as an update of that element of the
    array it was found in.
\<close>

subsection \<open>Data model\<close>

type_synonym ref = nat

datatype ItemType = Weapon | Armor | Potion | Key | Treasure

record Effect =
  effect_health :: "int option"
  effect_damage :: "int option"
  effect_defense :: "int option"

record Item =
  item_id :: string
  item_name :: string
  item_type :: ItemType
  item_value :: int
  item_description :: string
  item_effect :: "Effect option"

record Quest =
  quest_id :: string
  title :: string
  description :: string
  region :: string
  completed :: bool
  crystal :: "string option"

datatype StoryPhase = Awakening | Exploration | Finale

record GameState =
  health :: int
  maxHealth :: int
  inventory :: ref
  gold :: int
  currentLocation :: string
  experience :: int
  level :: int
  currentAct :: int
  currentRegion :: string
  activeQuests :: ref
  completedQuests :: ref
  crystalsRestored :: ref
  storyPhase :: StoryPhase

text \<open>The store of arrays. \<open>nextRef\<close> is the next unused reference.\<close>

record Heap =
  itemArrays :: "ref \<Rightarrow> Item list"
  questArrays :: "ref \<Rightarrow> Quest list"
  stringArrays :: "ref \<Rightarrow> string list"
  nextRef :: ref

text \<open>What an observer of a state sees of its collections: the arrays behind the references.\<close>

definition inventoryOf :: "Heap \<Rightarrow> GameState \<Rightarrow> Item list" where
  "inventoryOf h s = itemArrays h (inventory s)"

definition activeQuestsOf :: "Heap \<Rightarrow> GameState \<Rightarrow> Quest list" where
  "activeQuestsOf h s = questArrays h (activeQuests s)"

definition completedQuestsOf :: "Heap \<Rightarrow> GameState \<Rightarrow> string list" where
  "completedQuestsOf h s = stringArrays h (completedQuests s)"

definition crystalsRestoredOf :: "Heap \<Rightarrow> GameState \<Rightarrow> string list" where
  "crystalsRestoredOf h s = stringArrays h (crystalsRestored s)"

subsection \<open>INITIAL_STATE\<close>

definition starterSword :: Item where
  "starterSword = \<lparr> item_id = ''starter-sword'', item_name = ''Rusty Sword'',
     item_type = Weapon, item_value = 10,
     item_description = ''A worn but reliable blade'',
     item_effect = Some \<lparr> effect_health = None, effect_damage = Some 15,
                          effect_defense = None \<rparr> \<rparr>"

definition healthPotion :: Item where
  "healthPotion = \<lparr> item_id = ''health-potion'', item_name = ''Health Potion'',
     item_type = Potion, item_value = 25,
     item_description = ''Restores 30 HP'',
     item_effect = Some \<lparr> effect_health = Some 30, effect_damage = None,
                          effect_defense = None \<rparr> \<rparr>"

definition awakeningQuest :: Quest where
  "awakeningQuest = \<lparr> quest_id = ''awakening'', title = ''The Awakening'',
     description = ''Meet the Elder and learn about the corrupted crystals'',
     region = ''Eldergrove'', completed = False, crystal = None \<rparr>"

text \<open>
  The module-level object literal allocates four arrays; they get the references 0 to 3.
\<close>

definition INITIAL_HEAP :: Heap where
  "INITIAL_HEAP = \<lparr> itemArrays = (\<lambda>_. [])(0 := [starterSword, healthPotion]),
     questArrays = (\<lambda>_. [])(1 := [awakeningQuest]),
     stringArrays = (\<lambda>_. []),
     nextRef = 4 \<rparr>"

definition INITIAL_STATE :: GameState where
  "INITIAL_STATE = \<lparr> health = 100, maxHealth = 100, inventory = 0, gold = 50,
     currentLocation = ''Eldergrove Village'', experience = 0, level = 1,
     currentAct = 1, currentRegion = ''Eldergrove'', activeQuests = 1,
     completedQuests = 2, crystalsRestored = 3, storyPhase = Awakening \<rparr>"

subsection \<open>Construction, getState, setState\<close>

text \<open>
  \<open>{ ...obj }\<close> builds a new object and copies every field of \<open>obj\<close> into it. A field
  holding an array copies the reference, not the array.
\<close>

definition spread :: "GameState \<Rightarrow> GameState" where
  "spread s = \<lparr> health = health s, maxHealth = maxHealth s, inventory = inventory s,
     gold = gold s, currentLocation = currentLocation s, experience = experience s,
     level = level s, currentAct = currentAct s, currentRegion = currentRegion s,
     activeQuests = activeQuests s, completedQuests = completedQuests s,
     crystalsRestored = crystalsRestored s, storyPhase = storyPhase s \<rparr>"

text \<open>
  The state objects, each under its reference, beside the store of arrays.
  \<open>nextObject\<close> is the next unused reference of a state object.
\<close>

record World =
  heap :: Heap
  stateObjects :: "ref \<Rightarrow> GameState"
  nextObject :: ref

text \<open>An object literal: a new object with the given contents.\<close>

definition newObject :: "GameState \<Rightarrow> World \<Rightarrow> ref \<times> World" where
  "newObject contents w =
     (nextObject w,
      w\<lparr> stateObjects := (stateObjects w)(nextObject w := contents),
         nextObject := Suc (nextObject w) \<rparr>)"

text \<open>
  \<open>constructor(initialState = INITIAL_STATE) { this.state = { ...initialState } }\<close>:
  the result is the reference that the new engine keeps in \<open>this.state\<close>.
\<close>

definition newGameEngine :: "ref \<Rightarrow> World \<Rightarrow> ref \<times> World" where
  "newGameEngine initialState w = newObject (spread (stateObjects w initialState)) w"

text \<open>\<open>getState() { return { ...this.state } }\<close>, for the engine whose \<open>this.state\<close> is given.\<close>

definition getState :: "ref \<Rightarrow> World \<Rightarrow> ref \<times> World" where
  "getState this_state w = newObject (spread (stateObjects w this_state)) w"

text \<open>
  The module: the object literal \<open>INITIAL_STATE\<close> is the state object 0, with its four
  arrays in \<open>INITIAL_HEAP\<close>.
\<close>

definition INITIAL_WORLD :: World where
  "INITIAL_WORLD = \<lparr> heap = INITIAL_HEAP, stateObjects = (\<lambda>_. INITIAL_STATE),
     nextObject = 1 \<rparr>"

text \<open>
  \<open>export const gameEngine = new GameEngine()\<close>: the reference in \<open>this.state\<close> of
  the exported engine, the world after the module is loaded, and the contents of the
  engine's state object there.
\<close>

definition gameEngine_state :: ref where
  "gameEngine_state = fst (newGameEngine 0 INITIAL_WORLD)"

definition MODULE_WORLD :: World where
  "MODULE_WORLD = snd (newGameEngine 0 INITIAL_WORLD)"

definition gameEngine :: GameState where
  "gameEngine = stateObjects MODULE_WORLD gameEngine_state"

text \<open>\<open>Partial<GameState>\<close>: every field may be absent.\<close>

record PartialGameState =
  p_health :: "int option"
  p_maxHealth :: "int option"
  p_inventory :: "ref option"
  p_gold :: "int option"
  p_currentLocation :: "string option"
  p_experience :: "int option"
  p_level :: "int option"
  p_currentAct :: "int option"
  p_currentRegion :: "string option"
  p_activeQuests :: "ref option"
  p_completedQuests :: "ref option"
  p_crystalsRestored :: "ref option"
  p_storyPhase :: "StoryPhase option"

definition orElse :: "'a option \<Rightarrow> 'a \<Rightarrow> 'a" where
  "orElse x d = (case x of None \<Rightarrow> d | Some v \<Rightarrow> v)"

text \<open>\<open>this.state = { ...this.state, ...newState }\<close>: the fields present win.\<close>

definition setState :: "PartialGameState \<Rightarrow> GameState \<Rightarrow> GameState" where
  "setState newState s = \<lparr> health = orElse (p_health newState) (health s),
     maxHealth = orElse (p_maxHealth newState) (maxHealth s),
     inventory = orElse (p_inventory newState) (inventory s),
     gold = orElse (p_gold newState) (gold s),
     currentLocation = orElse (p_currentLocation newState) (currentLocation s),
     experience = orElse (p_experience newState) (experience s),
     level = orElse (p_level newState) (level s),
     currentAct = orElse (p_currentAct newState) (currentAct s),
     currentRegion = orElse (p_currentRegion newState) (currentRegion s),
     activeQuests = orElse (p_activeQuests newState) (activeQuests s),
     completedQuests = orElse (p_completedQuests newState) (completedQuests s),
     crystalsRestored = orElse (p_crystalsRestored newState) (crystalsRestored s),
     storyPhase = orElse (p_storyPhase newState) (storyPhase s) \<rparr>"

subsection \<open>Combat mechanics\<close>

record TakeDamageResult =
  newHealth :: int
  isDead :: bool

definition takeDamage :: "int \<Rightarrow> GameState \<Rightarrow> TakeDamageResult \<times> GameState" where
  "takeDamage amount s =
     (let s' = s\<lparr> health := max 0 (health s - amount) \<rparr>
      in (\<lparr> newHealth = health s', isDead = (health s' = 0) \<rparr>, s'))"

definition heal :: "int \<Rightarrow> GameState \<Rightarrow> int \<times> GameState" where
  "heal amount s =
     (let oldHealth = health s;
          s' = s\<lparr> health := min (maxHealth s) (health s + amount) \<rparr>
      in (health s' - oldHealth, s'))"

subsection \<open>Inventory management\<close>

text \<open>\<open>Array.prototype.push\<close> on the array behind a reference, one function per store.\<close>

definition pushItem :: "ref \<Rightarrow> Item \<Rightarrow> Heap \<Rightarrow> Heap" where
  "pushItem r x h = h\<lparr> itemArrays := (itemArrays h)(r := itemArrays h r @ [x]) \<rparr>"

definition pushQuest :: "ref \<Rightarrow> Quest \<Rightarrow> Heap \<Rightarrow> Heap" where
  "pushQuest r x h = h\<lparr> questArrays := (questArrays h)(r := questArrays h r @ [x]) \<rparr>"

definition pushString :: "ref \<Rightarrow> string \<Rightarrow> Heap \<Rightarrow> Heap" where
  "pushString r x h = h\<lparr> stringArrays := (stringArrays h)(r := stringArrays h r @ [x]) \<rparr>"

text \<open>\<open>findIndex\<close>: the index of the first element satisfying the predicate; -1 is \<open>None\<close>.\<close>

fun findIndex :: "('a \<Rightarrow> bool) \<Rightarrow> 'a list \<Rightarrow> nat option" where
  "findIndex P [] = None"
| "findIndex P (x # xs) =
     (if P x then Some 0
      else (case findIndex P xs of None \<Rightarrow> None | Some i \<Rightarrow> Some (Suc i)))"

text \<open>\<open>xs.splice(index, 1)\<close>: the array without its element at \<open>index\<close>.\<close>

definition splice1 :: "nat \<Rightarrow> 'a list \<Rightarrow> 'a list" where
  "splice1 index xs = take index xs @ drop (Suc index) xs"

definition addItem :: "Item \<Rightarrow> Heap \<Rightarrow> GameState \<Rightarrow> Heap \<times> GameState" where
  "addItem item h s = (pushItem (inventory s) item h, s)"

definition removeItem :: "string \<Rightarrow> Heap \<Rightarrow> GameState \<Rightarrow> Item option \<times> Heap \<times> GameState" where
  "removeItem itemId h s =
     (case findIndex (\<lambda>i. item_id i = itemId) (itemArrays h (inventory s)) of
        None \<Rightarrow> (None, h, s)
      | Some index \<Rightarrow>
          (let item = itemArrays h (inventory s) ! index;
               h' = h\<lparr> itemArrays := (itemArrays h)
                      (inventory s := splice1 index (itemArrays h (inventory s))) \<rparr>
           in (Some item, h', s)))"

text \<open>
  The decimal rendering of an integer, as a template literal renders a number.
\<close>

fun digitsOf :: "nat \<Rightarrow> string" where
  "digitsOf n =
     (if n < 10 then [char_of (48 + n)]
      else digitsOf (n div 10) @ [char_of (48 + n mod 10)])"

definition numberToString :: "int \<Rightarrow> string" where
  "numberToString n = (if n < 0 then CHR ''-'' # digitsOf (nat (- n)) else digitsOf (nat n))"

record UseItemResult =
  success :: bool
  message :: string
  healthRestored :: "int option"

text \<open>
  \<open>item.effect?.health\<close>: absent when the item has no effect, or the effect no health
  field.
\<close>

definition effectHealth :: "Item \<Rightarrow> int option" where
  "effectHealth item =
     (case item_effect item of None \<Rightarrow> None | Some e \<Rightarrow> effect_health e)"

text \<open>
  The condition \<open>item.type === 'potion' && item.effect?.health\<close> tests the number for
  truthiness: an absent field and the number 0 are both falsy.
\<close>

definition useItem :: "string \<Rightarrow> Heap \<Rightarrow> GameState \<Rightarrow> UseItemResult \<times> Heap \<times> GameState" where
  "useItem itemId h s =
     (case find (\<lambda>i. item_id i = itemId) (itemArrays h (inventory s)) of
        None \<Rightarrow>
          (\<lparr> success = False, message = ''Item not found'', healthRestored = None \<rparr>, h, s)
      | Some item \<Rightarrow>
          (case (if item_type item = Potion then effectHealth item else None) of
             None \<Rightarrow>
               (\<lparr> success = False, message = ''Cannot use this item now'',
                  healthRestored = None \<rparr>, h, s)
           | Some amount \<Rightarrow>
               if amount = 0 then
                 (\<lparr> success = False, message = ''Cannot use this item now'',
                    healthRestored = None \<rparr>, h, s)
               else
                 (let (healed, s1) = heal amount s;
                      (removed, h2, s2) = removeItem itemId h s1
                  in (\<lparr> success = True,
                        message = ''Used '' @ item_name item @ ''. Restored '' @
                                  numberToString healed @ '' HP!'',
                        healthRestored = Some healed \<rparr>, h2, s2))))"

subsection \<open>Economy\<close>

definition addGold :: "int \<Rightarrow> GameState \<Rightarrow> GameState" where
  "addGold amount s = s\<lparr> gold := gold s + amount \<rparr>"

definition spendGold :: "int \<Rightarrow> GameState \<Rightarrow> bool \<times> GameState" where
  "spendGold amount s =
     (if gold s \<ge> amount then (True, s\<lparr> gold := gold s - amount \<rparr>) else (False, s))"

subsection \<open>Progress\<close>

record GainExperienceResult =
  leveledUp :: bool
  newLevel :: "int option"

definition gainExperience :: "int \<Rightarrow> GameState \<Rightarrow> GainExperienceResult \<times> GameState" where
  "gainExperience amount s =
     (let s1 = s\<lparr> experience := experience s + amount \<rparr>;
          expNeeded = level s1 * 100
      in if experience s1 \<ge> expNeeded then
           (let s2 = s1\<lparr> level := level s1 + 1 \<rparr>;
                s3 = s2\<lparr> experience := experience s2 - expNeeded \<rparr>;
                s4 = s3\<lparr> maxHealth := maxHealth s3 + 20 \<rparr>;
                s5 = s4\<lparr> health := maxHealth s4 \<rparr>
            in (\<lparr> leveledUp = True, newLevel = Some (level s5) \<rparr>, s5))
         else (\<lparr> leveledUp = False, newLevel = None \<rparr>, s1))"

subsection \<open>Quest management\<close>

text \<open>
  \<open>completeQuest\<close> marks the quest it found, pushes the id onto the completed array in
  place, and assigns a new, filtered array to \<open>activeQuests\<close>: \<open>filter\<close> allocates.
\<close>

definition completeQuest :: "string \<Rightarrow> Heap \<Rightarrow> GameState \<Rightarrow> Heap \<times> GameState" where
  "completeQuest questId h s =
     (case findIndex (\<lambda>q. quest_id q = questId) (questArrays h (activeQuests s)) of
        None \<Rightarrow> (h, s)
      | Some i \<Rightarrow>
          (let arr = questArrays h (activeQuests s);
               h1 = h\<lparr> questArrays := (questArrays h)
                      (activeQuests s := arr[i := (arr ! i)\<lparr> completed := True \<rparr>]) \<rparr>;
               h2 = pushString (completedQuests s) questId h1;
               filtered = filter (\<lambda>q. quest_id q \<noteq> questId) (questArrays h2 (activeQuests s));
               r = nextRef h2;
               h3 = h2\<lparr> questArrays := (questArrays h2)(r := filtered), nextRef := Suc r \<rparr>
           in (h3, s\<lparr> activeQuests := r \<rparr>)))"

definition addQuest :: "Quest \<Rightarrow> Heap \<Rightarrow> GameState \<Rightarrow> Heap \<times> GameState" where
  "addQuest quest h s =
     (case find (\<lambda>q. quest_id q = quest_id quest) (questArrays h (activeQuests s)) of
        None \<Rightarrow> (pushQuest (activeQuests s) quest h, s)
      | Some q \<Rightarrow> (h, s))"

definition restoreCrystal :: "string \<Rightarrow> Heap \<Rightarrow> GameState \<Rightarrow> Heap \<times> GameState" where
  "restoreCrystal crystalType h s =
     (if crystalType \<notin> set (stringArrays h (crystalsRestored s)) then
        (let h1 = pushString (crystalsRestored s) crystalType h;
             n = length (stringArrays h1 (crystalsRestored s))
         in if n = 1 \<and> currentAct s = 1 then
              (h1, s\<lparr> currentAct := 2, storyPhase := Exploration \<rparr>)
            else if n = 5 then
              (h1, s\<lparr> currentAct := 3, storyPhase := Finale \<rparr>)
            else (h1, s))
      else (h, s))"

subsection \<open>Command parsing\<close>

text \<open>
  Strings are lists of 8-bit characters, read as the code points 0 to 255 (Latin-1).
  On these, \<open>toLowerCase\<close> maps A-Z and the accented capitals 192-222 (but not the
  multiplication sign 215) 32 places up, and \<open>trim\<close> strips tab, line feed, vertical
  tab, form feed, carriage return, space and no-break space.
\<close>

definition toLowerChar :: "char \<Rightarrow> char" where
  "toLowerChar c =
     (let n = (of_char c :: nat)
      in if (65 \<le> n \<and> n \<le> 90) \<or> (192 \<le> n \<and> n \<le> 222 \<and> n \<noteq> 215)
         then char_of (n + 32) else c)"

definition toLowerCase :: "string \<Rightarrow> string" where
  "toLowerCase s = map toLowerChar s"

definition isWhiteSpace :: "char \<Rightarrow> bool" where
  "isWhiteSpace c =
     (let n = (of_char c :: nat) in (9 \<le> n \<and> n \<le> 13) \<or> n = 32 \<or> n = 160)"

definition trim :: "string \<Rightarrow> string" where
  "trim s = rev (dropWhile isWhiteSpace (rev (dropWhile isWhiteSpace s)))"

fun startsWith :: "string \<Rightarrow> string \<Rightarrow> bool" where
  "startsWith s [] = True"
| "startsWith [] (c # cs) = False"
| "startsWith (x # xs) (c # cs) = (x = c \<and> startsWith xs cs)"

text \<open>\<open>s.includes(sub)\<close>: \<open>sub\<close> occurs in \<open>s\<close> as a contiguous substring.\<close>

fun includes_str :: "string \<Rightarrow> string \<Rightarrow> bool" where
  "includes_str [] sub = (sub = [])"
| "includes_str (x # xs) sub = (startsWith (x # xs) sub \<or> includes_str xs sub)"

text \<open>
  \<open>s.split(' ')\<close>: the pieces between the separators; the empty string gives one empty
  piece, two separators in a row an empty piece between them.
\<close>

fun splitBy :: "char \<Rightarrow> string \<Rightarrow> string list" where
  "splitBy sep [] = [[]]"
| "splitBy sep (c # cs) =
     (if c = sep then [] # splitBy sep cs
      else (case splitBy sep cs of [] \<Rightarrow> [[c]] | w # ws \<Rightarrow> (c # w) # ws))"

fun join :: "string \<Rightarrow> string list \<Rightarrow> string" where
  "join sep [] = []"
| "join sep [w] = w"
| "join sep (w # v # ws) = w @ sep @ join sep (v # ws)"

text \<open>\<open>words.slice(1).join(' ') || 'unknown'\<close>: the empty string is falsy.\<close>

definition extractTarget :: "string \<Rightarrow> string" where
  "extractTarget command =
     (let words = splitBy CHR '' '' command;
          rest = join '' '' (drop 1 words)
      in if rest = [] then ''unknown'' else rest)"

record ParsedCommand =
  action :: string
  target :: "string option"
  itemName :: "string option"

definition parseCommand :: "string \<Rightarrow> ParsedCommand" where
  "parseCommand command =
     (let lower = trim (toLowerCase command)
      in if includes_str lower ''attack'' then
           \<lparr> action = ''attack'', target = Some (extractTarget lower), itemName = None \<rparr>
         else if includes_str lower ''defend'' \<or> includes_str lower ''block'' then
           \<lparr> action = ''defend'', target = None, itemName = None \<rparr>
         else if includes_str lower ''open'' \<or> includes_str lower ''unlock'' then
           \<lparr> action = ''unlock'', target = Some (extractTarget lower), itemName = None \<rparr>
         else if includes_str lower ''pickup'' \<or> includes_str lower ''take'' \<or> includes_str lower ''grab'' then
           \<lparr> action = ''pickup'', target = None, itemName = Some (extractTarget lower) \<rparr>
         else if includes_str lower ''use'' then
           \<lparr> action = ''use'', target = None, itemName = Some (extractTarget lower) \<rparr>
         else if includes_str lower ''inventory'' then
           \<lparr> action = ''inventory'', target = None, itemName = None \<rparr>
         else \<lparr> action = ''explore'', target = None, itemName = None \<rparr>)"

subsection \<open>Sequences of operations\<close>

text \<open>
  A session is a sequence of calls of the engine's mutators, each with its arguments;
  the results the calls return are dropped here.
\<close>

datatype Op =
    SetState PartialGameState
  | TakeDamage int
  | Heal int
  | AddItem Item
  | RemoveItem string
  | UseItem string
  | AddGold int
  | SpendGold int
  | GainExperience int
  | CompleteQuest string
  | AddQuest Quest
  | RestoreCrystal string

fun applyOp :: "Op \<Rightarrow> Heap \<times> GameState \<Rightarrow> Heap \<times> GameState" where
  "applyOp (SetState p) (h, s) = (h, setState p s)"
| "applyOp (TakeDamage amount) (h, s) = (h, snd (takeDamage amount s))"
| "applyOp (Heal amount) (h, s) = (h, snd (heal amount s))"
| "applyOp (AddItem item) (h, s) = addItem item h s"
| "applyOp (RemoveItem itemId) (h, s) = snd (removeItem itemId h s)"
| "applyOp (UseItem itemId) (h, s) = snd (useItem itemId h s)"
| "applyOp (AddGold amount) (h, s) = (h, addGold amount s)"
| "applyOp (SpendGold amount) (h, s) = (h, snd (spendGold amount s))"
| "applyOp (GainExperience amount) (h, s) = (h, snd (gainExperience amount s))"
| "applyOp (CompleteQuest questId) (h, s) = completeQuest questId h s"
| "applyOp (AddQuest quest) (h, s) = addQuest quest h s"
| "applyOp (RestoreCrystal crystalType) (h, s) = restoreCrystal crystalType h s"

definition run :: "Op list \<Rightarrow> Heap \<times> GameState \<Rightarrow> Heap \<times> GameState" where
  "run ops c = fold applyOp ops c"

subsection \<open>Admissible sessions\<close>

text \<open>
  \<open>setState\<close> can overwrite any field, so no property of a field survives an
  arbitrary call of it. The application calls it for the location only, and the
  sessions considered below use it for \<open>currentLocation\<close> and \<open>currentRegion\<close> only.
\<close>

definition locationOnly :: "PartialGameState \<Rightarrow> bool" where
  "locationOnly p =
     (p_health p = None \<and> p_maxHealth p = None \<and> p_inventory p = None \<and>
      p_gold p = None \<and> p_experience p = None \<and> p_level p = None \<and>
      p_currentAct p = None \<and> p_activeQuests p = None \<and>
      p_completedQuests p = None \<and> p_crystalsRestored p = None \<and>
      p_storyPhase p = None)"

text \<open>
  \<open>allowedRun ok ops c\<close>: each operation of the session \<open>ops\<close>, started in \<open>c\<close>,
  satisfies the condition \<open>ok\<close> in the state it is called in.
\<close>

fun allowedRun :: "(Op \<Rightarrow> Heap \<times> GameState \<Rightarrow> bool) \<Rightarrow> Op list \<Rightarrow> Heap \<times> GameState \<Rightarrow> bool" where
  "allowedRun ok [] c = True"
| "allowedRun ok (op # ops) c = (ok op c \<and> allowedRun ok ops (applyOp op c))"

text \<open>Sessions in which \<open>addGold\<close> is called with amounts that are not negative.\<close>

fun goldOk :: "Op \<Rightarrow> Heap \<times> GameState \<Rightarrow> bool" where
  "goldOk (SetState p) c = locationOnly p"
| "goldOk (AddGold amount) c = (0 \<le> amount)"
| "goldOk op c = True"

text \<open>
  Sessions in which \<open>takeDamage\<close> and \<open>heal\<close> are called with amounts that are not
  negative, and every item added is acceptable: if it is a potion with a health effect,
  the effect is not negative.
\<close>

definition potionOk :: "Item \<Rightarrow> bool" where
  "potionOk item =
     (case (if item_type item = Potion then effectHealth item else None) of
        None \<Rightarrow> True
      | Some amount \<Rightarrow> 0 \<le> amount)"

fun healthOk :: "Op \<Rightarrow> Heap \<times> GameState \<Rightarrow> bool" where
  "healthOk (SetState p) c = locationOnly p"
| "healthOk (TakeDamage amount) c = (0 \<le> amount)"
| "healthOk (Heal amount) c = (0 \<le> amount)"
| "healthOk (AddItem item) c = potionOk item"
| "healthOk op c = True"

text \<open>
  The invariant of such sessions: health is within its bounds and every item of the
  inventory is acceptable.
\<close>

definition healthInv :: "Heap \<times> GameState \<Rightarrow> bool" where
  "healthInv c = (0 \<le> health (snd c) \<and> health (snd c) \<le> maxHealth (snd c) \<and>
     list_all potionOk (itemArrays (fst c) (inventory (snd c))))"

text \<open>
  Sessions in which \<open>addQuest\<close> is never called with a quest whose id is among the
  completed ones at that moment.
\<close>

fun questOk :: "Op \<Rightarrow> Heap \<times> GameState \<Rightarrow> bool" where
  "questOk (SetState p) c = locationOnly p"
| "questOk (AddQuest quest) c = (quest_id quest \<notin> set (completedQuestsOf (fst c) (snd c)))"
| "questOk op c = True"

text \<open>
  The invariant of such sessions: no id is both active and completed. The completed
  quests and the restored crystals are two arrays of strings; they stay two arrays.
\<close>

definition questInv :: "Heap \<times> GameState \<Rightarrow> bool" where
  "questInv c =
     (completedQuests (snd c) \<noteq> crystalsRestored (snd c) \<and>
      quest_id ` set (activeQuestsOf (fst c) (snd c)) \<inter>
        set (completedQuestsOf (fst c) (snd c)) = {})"

text \<open>A second quest, for concrete sessions.\<close>

definition natureQuest :: Quest where
  "natureQuest = \<lparr> quest_id = ''nature-crystal'', title = ''The Nature Crystal'',
     description = ''Purify the crystal of the Whispering Woods'',
     region = ''Whispering Woods'', completed = False, crystal = Some ''Nature'' \<rparr>"

subsection \<open>Example items\<close>

text \<open>A potion whose effect record has the health field 0.\<close>

definition weakTonic :: Item where
  "weakTonic = \<lparr> item_id = ''weak-tonic'', item_name = ''Weak Tonic'',
     item_type = Potion, item_value = 1,
     item_description = ''Restores nothing'',
     item_effect = Some \<lparr> effect_health = Some 0, effect_damage = None,
                          effect_defense = None \<rparr> \<rparr>"

text \<open>The same potion under the id of the starting health potion.\<close>

definition decoyPotion :: Item where
  "decoyPotion = weakTonic\<lparr> item_id := ''health-potion'' \<rparr>"

subsection \<open>The caller's side of getState\<close>

text \<open>
  What a caller can do with the reference \<open>r\<close> to the object that \<open>getState\<close>
  returned. It can assign to fields of that object: the object then holds the merge
  that \<open>setState\<close> computes. Or it can change one of the arrays that the object
  refers to in place (\<open>push\<close>, \<open>splice\<close>, \<open>length = 0\<close>, an assignment to an
  index): whatever the calls, the array behind the reference then holds some new
  contents.
\<close>

datatype CallerMutation =
    AssignFields PartialGameState
  | OverwriteInventory "Item list"
  | OverwriteActiveQuests "Quest list"
  | OverwriteCompletedQuests "string list"
  | OverwriteCrystalsRestored "string list"

fun callerMutate :: "CallerMutation \<Rightarrow> ref \<Rightarrow> World \<Rightarrow> World" where
  "callerMutate (AssignFields p) r w =
     w\<lparr> stateObjects := (stateObjects w)(r := setState p (stateObjects w r)) \<rparr>"
| "callerMutate (OverwriteInventory items) r w =
     w\<lparr> heap := (heap w)\<lparr> itemArrays :=
            (itemArrays (heap w))(inventory (stateObjects w r) := items) \<rparr> \<rparr>"
| "callerMutate (OverwriteActiveQuests quests) r w =
     w\<lparr> heap := (heap w)\<lparr> questArrays :=
            (questArrays (heap w))(activeQuests (stateObjects w r) := quests) \<rparr> \<rparr>"
| "callerMutate (OverwriteCompletedQuests ids) r w =
     w\<lparr> heap := (heap w)\<lparr> stringArrays :=
            (stringArrays (heap w))(completedQuests (stateObjects w r) := ids) \<rparr> \<rparr>"
| "callerMutate (OverwriteCrystalsRestored crystals) r w =
     w\<lparr> heap := (heap w)\<lparr> stringArrays :=
            (stringArrays (heap w))(crystalsRestored (stateObjects w r) := crystals) \<rparr> \<rparr>"

text \<open>
  What the operations of an engine can observe: the fields of its state object and the
  contents of the four arrays these refer to.
\<close>

definition observe ::
  "Heap \<Rightarrow> GameState \<Rightarrow> GameState \<times> Item list \<times> Quest list \<times> string list \<times> string list" where
  "observe h s =
     (s, inventoryOf h s, activeQuestsOf h s, completedQuestsOf h s, crystalsRestoredOf h s)"

definition observeEngine ::
  "World \<Rightarrow> ref \<Rightarrow> GameState \<times> Item list \<times> Quest list \<times> string list \<times> string list" where
  "observeEngine w this_state = observe (heap w) (stateObjects w this_state)"

text \<open>A partial state with no field, and the assignment \<open>health = 0\<close>.\<close>

definition noFields :: PartialGameState where
  "noFields = \<lparr> p_health = None, p_maxHealth = None, p_inventory = None, p_gold = None,
     p_currentLocation = None, p_experience = None, p_level = None, p_currentAct = None,
     p_currentRegion = None, p_activeQuests = None, p_completedQuests = None,
     p_crystalsRestored = None, p_storyPhase = None \<rparr>"

definition healthZero :: PartialGameState where
  "healthZero = noFields\<lparr> p_health := Some 0 \<rparr>"

subsection \<open>The caller's side of the effects\<close>

text \<open>
  The one caller of the engine, \<open>handleCommand\<close> in the page, applies the effects of
  a response. For the health it looks at the sign:
  \<^verbatim>\<open>if (effects.healthChange) {
    if (effects.healthChange < 0) gameEngine.takeDamage(Math.abs(effects.healthChange));
    else gameEngine.heal(effects.healthChange); }\<close>
  For the gold it does not:
  \<^verbatim>\<open>if (effects.goldChange) gameEngine.addGold(effects.goldChange);\<close>
\<close>

definition applyHealthChange :: "int \<Rightarrow> GameState \<Rightarrow> GameState" where
  "applyHealthChange healthChange s =
     (if healthChange \<noteq> 0 then
        (if healthChange < 0 then snd (takeDamage (abs healthChange) s)
         else snd (heal healthChange s))
      else s)"

definition applyGoldChange :: "int \<Rightarrow> GameState \<Rightarrow> GameState" where
  "applyGoldChange goldChange s = (if goldChange \<noteq> 0 then addGold goldChange s else s)"

section \<open>Properties\<close>

subsection \<open>Auxiliary facts\<close>

lemma spread_id: "spread s = s"
  by (simp add: spread_def)

lemma gameEngine_eq: "gameEngine = INITIAL_STATE"
  by (simp add: gameEngine_def gameEngine_state_def MODULE_WORLD_def newGameEngine_def
      newObject_def INITIAL_WORLD_def spread_id)

subsection \<open>Healing\<close>

text \<open>
  C6. For every state and every amount, \<open>heal amount\<close> sets health to
  \<open>min maxHealth (health + amount)\<close>, returns exactly
  \<open>min amount (maxHealth - healthBefore)\<close>, and changes no other field. This is
  required for amounts that are not negative; it holds for every integer amount.
\<close>

theorem heal_returns_actual_amount:
  "heal amount s =
     (min amount (maxHealth s - health s),
      s\<lparr> health := min (maxHealth s) (health s + amount) \<rparr>)"
  by (simp add: heal_def Let_def min_def)

subsection \<open>Experience and levels\<close>

text \<open>
  C1, as the source has it. \<open>gainExperience\<close> adds the amount to the experience and
  then tests the threshold \<open>level * 100\<close> once, with an \<open>if\<close>: at most one level is
  gained per call. When the threshold is reached the level goes up by one, the old
  threshold is taken off the experience, \<open>maxHealth\<close> grows by 20, \<open>health\<close> is set
  to the new \<open>maxHealth\<close>, and the call reports the level-up with the new level;
  otherwise only the experience changes and no level-up is reported. Afterwards
  \<open>experience < level * 100\<close> holds whenever the experience with the amount added was
  below the old threshold plus the new one. From level 1 with experience 0,
  \<open>gainExperience 100\<close> gives level 2, experience 0, 20 more \<open>maxHealth\<close> and full
  health.
\<close>

theorem gainExperience_single_step:
  "gainExperience amount s =
     (if level s * 100 \<le> experience s + amount then
        (\<lparr> leveledUp = True, newLevel = Some (level s + 1) \<rparr>,
         s\<lparr> experience := experience s + amount - level s * 100,
            level := level s + 1,
            maxHealth := maxHealth s + 20,
            health := maxHealth s + 20 \<rparr>)
      else
        (\<lparr> leveledUp = False, newLevel = None \<rparr>,
         s\<lparr> experience := experience s + amount \<rparr>))
   \<and> (experience s + amount < (2 * level s + 1) * 100 \<longrightarrow>
        experience (snd (gainExperience amount s))
          < level (snd (gainExperience amount s)) * 100)
   \<and> (level s = 1 \<and> experience s = 0 \<longrightarrow>
        gainExperience 100 s =
          (\<lparr> leveledUp = True, newLevel = Some 2 \<rparr>,
           s\<lparr> experience := 0, level := 2, maxHealth := maxHealth s + 20,
              health := maxHealth s + 20 \<rparr>))"
  by (auto simp add: gainExperience_def Let_def algebra_simps)

text \<open>
  On the engine as constructed: 100 points give level 2 with 120 health of 120, and
  30 points give no level.
\<close>

theorem gainExperience_single_step_witness:
  "gainExperience 100 gameEngine =
     (\<lparr> leveledUp = True, newLevel = Some 2 \<rparr>,
      gameEngine\<lparr> experience := 0, level := 2, maxHealth := 120, health := 120 \<rparr>)
   \<and> experience (snd (gainExperience 100 gameEngine))
       < level (snd (gainExperience 100 gameEngine)) * 100
   \<and> gainExperience 30 gameEngine =
       (\<lparr> leveledUp = False, newLevel = None \<rparr>, gameEngine\<lparr> experience := 30 \<rparr>)"
  using gainExperience_single_step [where s = gameEngine and amount = 100]
        gainExperience_single_step [where s = gameEngine and amount = 30]
  by (simp add: gameEngine_eq INITIAL_STATE_def)

text \<open>
  There is no loop: 300 points at level 1 give level 2 with 200 points left, which is
  not below the threshold 200 of level 2.
\<close>

theorem gainExperience_cascade_counterexample:
  "(0::int) \<le> 300 \<and>
   level (snd (gainExperience 300 gameEngine)) = 2 \<and>
   experience (snd (gainExperience 300 gameEngine)) = 200 \<and>
   \<not> experience (snd (gainExperience 300 gameEngine))
       < level (snd (gainExperience 300 gameEngine)) * 100"
  by (simp add: gainExperience_def gameEngine_eq INITIAL_STATE_def Let_def)

subsection \<open>Crystals and story progression\<close>

lemma restoreCrystal_present:
  "crystalType \<in> set (stringArrays h (crystalsRestored s)) \<Longrightarrow>
   restoreCrystal crystalType h s = (h, s)"
  by (simp add: restoreCrystal_def)

lemma restoreCrystal_absent:
  "crystalType \<notin> set (stringArrays h (crystalsRestored s)) \<Longrightarrow>
   restoreCrystal crystalType h s =
     (pushString (crystalsRestored s) crystalType h,
      if length (stringArrays h (crystalsRestored s)) = 0 \<and> currentAct s = 1
      then s\<lparr> currentAct := 2, storyPhase := Exploration \<rparr>
      else if length (stringArrays h (crystalsRestored s)) = 4
      then s\<lparr> currentAct := 3, storyPhase := Finale \<rparr>
      else s)"
  by (simp add: restoreCrystal_def pushString_def Let_def)






subsection \<open>Command parsing\<close>

text \<open>
  Splitting at a separator and joining with it again gives the string back; so
  \<open>extractTarget\<close> returns what follows the first space.
\<close>

lemma splitBy_not_Nil: "splitBy sep s \<noteq> []"
  by (induction s) (auto split: list.splits)

lemma join_splitBy: "join [sep] (splitBy sep s) = s"
proof (induction s)
  case Nil
  show ?case by simp
next
  case (Cons c cs)
  show ?case
  proof (cases "c = sep")
    case True
    obtain w ws where "splitBy sep cs = w # ws"
      using splitBy_not_Nil [of sep cs] by (cases "splitBy sep cs") auto
    with Cons True show ?thesis by simp
  next
    case False
    obtain w ws where sp: "splitBy sep cs = w # ws"
      using splitBy_not_Nil [of sep cs] by (cases "splitBy sep cs") auto
    with Cons False show ?thesis by (cases ws) auto
  qed
qed

lemma splitBy_first_word:
  "sep \<notin> set w \<Longrightarrow> splitBy sep (w @ sep # rest) = w # splitBy sep rest"
  by (induction w) auto

lemma extractTarget_drops_first_word:
  "CHR '' '' \<notin> set w \<Longrightarrow>
   extractTarget (w @ '' '' @ rest) = (if rest = [] then ''unknown'' else rest)"
  by (simp add: extractTarget_def splitBy_first_word join_splitBy)

text \<open>
  C9. \<open>parseCommand\<close> returns, for every input string, a record whose action tag is
  one of attack, defend, unlock, pickup, use, inventory, explore. The tag is explore
  exactly when the trimmed, lower-cased input contains none of the ten keywords.
  \<open>parseCommand "take the rusty sword"\<close> is a pickup whose extracted target (the field
  \<open>itemName\<close>) is "the rusty sword": \<open>extractTarget\<close> drops the first word, up to the
  first space, and returns the rest, or "unknown" when nothing is left.
\<close>

theorem parseCommand_total:
  "action (parseCommand command) \<in>
     {''attack'', ''defend'', ''unlock'', ''pickup'', ''use'', ''inventory'', ''explore''}
   \<and> (action (parseCommand command) = ''explore'') =
       (let lower = trim (toLowerCase command)
        in \<not> includes_str lower ''attack'' \<and> \<not> includes_str lower ''defend'' \<and>
           \<not> includes_str lower ''block'' \<and> \<not> includes_str lower ''open'' \<and>
           \<not> includes_str lower ''unlock'' \<and> \<not> includes_str lower ''pickup'' \<and>
           \<not> includes_str lower ''take'' \<and> \<not> includes_str lower ''grab'' \<and>
           \<not> includes_str lower ''use'' \<and> \<not> includes_str lower ''inventory'')
   \<and> parseCommand ''take the rusty sword'' =
       \<lparr> action = ''pickup'', target = None, itemName = Some ''the rusty sword'' \<rparr>
   \<and> (CHR '' '' \<notin> set w \<longrightarrow>
        extractTarget (w @ '' '' @ rest) = (if rest = [] then ''unknown'' else rest))"
proof (intro conjI impI)
  show "action (parseCommand command) \<in>
     {''attack'', ''defend'', ''unlock'', ''pickup'', ''use'', ''inventory'', ''explore''}"
    by (simp add: parseCommand_def Let_def)
  show "(action (parseCommand command) = ''explore'') =
       (let lower = trim (toLowerCase command)
        in \<not> includes_str lower ''attack'' \<and> \<not> includes_str lower ''defend'' \<and>
           \<not> includes_str lower ''block'' \<and> \<not> includes_str lower ''open'' \<and>
           \<not> includes_str lower ''unlock'' \<and> \<not> includes_str lower ''pickup'' \<and>
           \<not> includes_str lower ''take'' \<and> \<not> includes_str lower ''grab'' \<and>
           \<not> includes_str lower ''use'' \<and> \<not> includes_str lower ''inventory'')"
    by (simp add: parseCommand_def Let_def)
  show "parseCommand ''take the rusty sword'' =
       \<lparr> action = ''pickup'', target = None, itemName = Some ''the rusty sword'' \<rparr>"
    by code_simp
next
  assume "CHR '' '' \<notin> set w"
  then show "extractTarget (w @ '' '' @ rest) = (if rest = [] then ''unknown'' else rest)"
    by (rule extractTarget_drops_first_word)
qed

text \<open>The first word "take" has no space; "look around" has no keyword.\<close>

theorem parseCommand_total_witness:
  "CHR '' '' \<notin> set ''take'' \<and>
   extractTarget ''take the rusty sword'' = ''the rusty sword'' \<and>
   action (parseCommand ''look around'') = ''explore''"
proof -
  have w: "CHR '' '' \<notin> set ''take''" by simp
  have e: "action (parseCommand ''look around'') = ''explore''" by code_simp
  from w e parseCommand_total [where w = "''take''" and rest = "''the rusty sword''"]
  show ?thesis by simp
qed

subsection \<open>Sessions and invariants\<close>

text \<open>
  A property that holds at the start and that every admissible operation preserves
  holds at the end of every admissible session.
\<close>

lemma allowedRun_invariant:
  assumes "P c"
    and "\<And>op c. P c \<Longrightarrow> ok op c \<Longrightarrow> P (applyOp op c)"
    and "allowedRun ok ops c"
  shows "P (run ops c)"
  using assms(1,3)
proof (induction ops arbitrary: c)
  case Nil
  then show ?case by (simp add: run_def)
next
  case (Cons op ops)
  from Cons.prems have "P (applyOp op c)" and "allowedRun ok ops (applyOp op c)"
    by (simp_all add: assms(2))
  then have "P (run ops (applyOp op c))" by (rule Cons.IH)
  then show ?case by (simp add: run_def)
qed

text \<open>What the operations leave alone.\<close>

lemma removeItem_state: "snd (snd (removeItem itemId h s)) = s"
  by (simp add: removeItem_def Let_def split: option.split)

lemma useItem_state:
  "snd (snd (useItem itemId h s)) = s\<lparr> health := health (snd (snd (useItem itemId h s))) \<rparr>"
  by (simp add: useItem_def heal_def removeItem_def Let_def split: option.split prod.split)

lemma setState_locationOnly:
  "locationOnly p \<Longrightarrow>
   setState p s = s\<lparr> currentLocation := orElse (p_currentLocation p) (currentLocation s),
                      currentRegion := orElse (p_currentRegion p) (currentRegion s) \<rparr>"
  by (simp add: setState_def locationOnly_def orElse_def)

lemma gold_useItem: "gold (snd (snd (useItem itemId h s))) = gold s"
  by (subst useItem_state) simp

subsection \<open>Gold\<close>

lemma goldOk_step:
  "0 \<le> gold (snd c) \<Longrightarrow> goldOk op c \<Longrightarrow> 0 \<le> gold (snd (applyOp op c))"
proof (cases c)
  case (Pair h s)
  assume g: "0 \<le> gold (snd c)" and ok: "goldOk op c"
  show ?thesis
  proof (cases op)
    case (SetState p)
    with ok g Pair show ?thesis by (simp add: setState_locationOnly)
  next
    case (TakeDamage a)
    with g Pair show ?thesis by (simp add: takeDamage_def Let_def)
  next
    case (Heal a)
    with g Pair show ?thesis by (simp add: heal_def Let_def)
  next
    case (AddItem it)
    with g Pair show ?thesis by (simp add: addItem_def)
  next
    case (RemoveItem i)
    with g Pair show ?thesis by (simp add: removeItem_state)
  next
    case (UseItem i)
    with g Pair show ?thesis by (simp add: gold_useItem)
  next
    case (AddGold a)
    with ok g Pair show ?thesis by (simp add: addGold_def)
  next
    case (SpendGold a)
    with g Pair show ?thesis by (simp add: spendGold_def)
  next
    case (GainExperience a)
    with g Pair show ?thesis by (simp add: gainExperience_def Let_def)
  next
    case (CompleteQuest q)
    with g Pair show ?thesis by (simp add: completeQuest_def Let_def split: option.split)
  next
    case (AddQuest q)
    with g Pair show ?thesis by (simp add: addQuest_def split: option.split)
  next
    case (RestoreCrystal c)
    with g Pair show ?thesis by (simp add: restoreCrystal_def Let_def)
  qed
qed

text \<open>
  What the code does keep. \<open>spendGold\<close> takes exactly the amount off when
  \<open>gold \<ge> amount\<close> and returns true, and otherwise returns false and leaves the state
  as it is; it never makes gold negative, for any integer amount. \<open>addGold\<close> adds
  exactly the amount. Gold stays non-negative through every session in which
  \<open>addGold\<close> is not given a negative amount: such an amount is the only way to
  negative gold.
\<close>

lemma gold_kept_by_spendGold:
  "(allowedRun goldOk ops (INITIAL_HEAP, gameEngine) \<longrightarrow>
      0 \<le> gold (snd (run ops (INITIAL_HEAP, gameEngine))))
   \<and> spendGold amount s =
       (if amount \<le> gold s then (True, s\<lparr> gold := gold s - amount \<rparr>) else (False, s))
   \<and> (0 \<le> gold s \<longrightarrow> 0 \<le> gold (snd (spendGold amount s)))
   \<and> addGold amount s = s\<lparr> gold := gold s + amount \<rparr>
   \<and> (0 \<le> gold s \<and> 0 \<le> amount \<longrightarrow> 0 \<le> gold (addGold amount s))"
proof (intro conjI impI)
  assume a: "allowedRun goldOk ops (INITIAL_HEAP, gameEngine)"
  have init: "0 \<le> gold (snd (INITIAL_HEAP, gameEngine))"
    by (simp add: gameEngine_eq INITIAL_STATE_def)
  show "0 \<le> gold (snd (run ops (INITIAL_HEAP, gameEngine)))"
    by (rule allowedRun_invariant [where P = "\<lambda>c. 0 \<le> gold (snd c)" and ok = goldOk,
          OF init goldOk_step a])
next
  show "spendGold amount s =
       (if amount \<le> gold s then (True, s\<lparr> gold := gold s - amount \<rparr>) else (False, s))"
    by (simp add: spendGold_def)
next
  assume "0 \<le> gold s"
  then show "0 \<le> gold (snd (spendGold amount s))"
    by (simp add: spendGold_def)
next
  show "addGold amount s = s\<lparr> gold := gold s + amount \<rparr>"
    by (simp add: addGold_def)
next
  assume "0 \<le> gold s \<and> 0 \<le> amount"
  then show "0 \<le> gold (addGold amount s)"
    by (simp add: addGold_def)
qed

text \<open>
  C8. Gold is to be a non-negative integer in every state reached by calls of
  \<open>addGold\<close> and \<open>spendGold\<close> with any integer amounts. The code does not keep
  this. \<open>spendGold\<close> guards: it refuses to spend more than there is. The caller
  guards the health: a negative health change goes to \<open>takeDamage\<close> with its absolute
  value, and stops at 0. But \<open>addGold\<close> adds without a guard, and the caller passes
  the gold change to it with its sign. On the engine as constructed, with 50 gold, a
  gold change of -100 leaves -50 gold, where \<open>spendGold 100\<close> is refused and a
  health change of -150 leaves health 0.
\<close>

theorem addGold_drives_gold_negative:
  "gold gameEngine = 50
   \<and> gold (applyGoldChange (- 100) gameEngine) = - 50
   \<and> gold (addGold (- 100) gameEngine) = - 50
   \<and> \<not> 0 \<le> gold (snd (run [AddGold (- 100)] (INITIAL_HEAP, gameEngine)))
   \<and> spendGold 100 gameEngine = (False, gameEngine)
   \<and> health gameEngine = 100
   \<and> health (applyHealthChange (- 150) gameEngine) = 0"
  by (simp add: applyGoldChange_def applyHealthChange_def addGold_def spendGold_def
      takeDamage_def run_def gameEngine_eq INITIAL_STATE_def Let_def)

subsection \<open>Health\<close>

text \<open>
  \<open>useItem\<close> either changes nothing, or heals by the health effect of a potion of the
  inventory and removes an item.
\<close>

lemma find_in_set: "find P xs = Some x \<Longrightarrow> x \<in> set xs"
  by (induction xs) (auto split: if_splits)

lemma list_all_splice1: "list_all P xs \<Longrightarrow> list_all P (splice1 i xs)"
  by (auto simp add: splice1_def list_all_iff dest: in_set_takeD in_set_dropD)

lemma removeItem_heap:
  "fst (snd (removeItem itemId h s)) = h \<or>
   (\<exists>index. fst (snd (removeItem itemId h s)) =
      h\<lparr> itemArrays := (itemArrays h)
           (inventory s := splice1 index (itemArrays h (inventory s))) \<rparr>)"
  by (auto simp add: removeItem_def Let_def split: option.split)

lemma removeItem_heap_same_inventory:
  "inventory s' = inventory s \<Longrightarrow>
   fst (snd (removeItem itemId h s')) = fst (snd (removeItem itemId h s))"
  by (simp add: removeItem_def Let_def split: option.split)

lemma useItem_cases:
  "snd (useItem itemId h s) = (h, s) \<or>
   (\<exists>item amount. item \<in> set (itemArrays h (inventory s)) \<and> item_type item = Potion \<and>
      effectHealth item = Some amount \<and> amount \<noteq> 0 \<and>
      snd (useItem itemId h s) =
        (fst (snd (removeItem itemId h s)),
         s\<lparr> health := min (maxHealth s) (health s + amount) \<rparr>))"
proof (cases "find (\<lambda>i. item_id i = itemId) (itemArrays h (inventory s))")
  case None
  then show ?thesis by (simp add: useItem_def)
next
  case (Some item)
  note found = Some
  show ?thesis
  proof (cases "if item_type item = Potion then effectHealth item else None")
    case None
    with found show ?thesis by (simp add: useItem_def)
  next
    case (Some amount)
    then have p: "item_type item = Potion" and e: "effectHealth item = Some amount"
      by (simp_all split: if_splits)
    show ?thesis
    proof (cases "amount = 0")
      case True
      with found p e show ?thesis by (simp add: useItem_def)
    next
      case False
      have "snd (useItem itemId h s) =
        (fst (snd (removeItem itemId h (snd (heal amount s)))),
         snd (snd (removeItem itemId h (snd (heal amount s)))))"
        using found p e False by (simp add: useItem_def Let_def split: prod.split)
      moreover have "fst (snd (removeItem itemId h (snd (heal amount s)))) =
          fst (snd (removeItem itemId h s))"
        by (rule removeItem_heap_same_inventory) (simp add: heal_def Let_def)
      ultimately have "snd (useItem itemId h s) =
        (fst (snd (removeItem itemId h s)),
         s\<lparr> health := min (maxHealth s) (health s + amount) \<rparr>)"
        by (simp add: removeItem_state heal_def Let_def)
      with find_in_set [OF found] p e False show ?thesis by blast
    qed
  qed
qed

lemma healthInv_removeItem_heap:
  "list_all potionOk (itemArrays h (inventory s)) \<Longrightarrow>
   list_all potionOk (itemArrays (fst (snd (removeItem itemId h s))) (inventory s))"
  using removeItem_heap [of itemId h s] by (auto simp add: list_all_splice1)

lemma healthOk_step:
  "healthInv c \<Longrightarrow> healthOk op c \<Longrightarrow> healthInv (applyOp op c)"
proof (cases c)
  case (Pair h s)
  assume "healthInv c" and ok: "healthOk op c"
  with Pair have lo: "0 \<le> health s" and hi: "health s \<le> maxHealth s"
    and inv: "list_all potionOk (itemArrays h (inventory s))"
    by (simp_all add: healthInv_def)
  show ?thesis
  proof (cases op)
    case (SetState p)
    with ok lo hi inv Pair show ?thesis by (simp add: healthInv_def setState_locationOnly)
  next
    case (TakeDamage a)
    with ok lo hi inv Pair show ?thesis by (simp add: healthInv_def takeDamage_def Let_def)
  next
    case (Heal a)
    with ok lo hi inv Pair show ?thesis by (simp add: healthInv_def heal_def Let_def)
  next
    case (AddItem it)
    with ok lo hi inv Pair show ?thesis by (simp add: healthInv_def addItem_def pushItem_def)
  next
    case (RemoveItem i)
    with lo hi Pair healthInv_removeItem_heap [OF inv, of i]
    show ?thesis by (simp add: healthInv_def removeItem_state)
  next
    case (UseItem i)
    from useItem_cases [of i h s] show ?thesis
    proof
      assume "snd (useItem i h s) = (h, s)"
      with UseItem lo hi inv Pair show ?thesis by (simp add: healthInv_def)
    next
      assume "\<exists>item amount. item \<in> set (itemArrays h (inventory s)) \<and> item_type item = Potion \<and>
        effectHealth item = Some amount \<and> amount \<noteq> 0 \<and>
        snd (useItem i h s) =
          (fst (snd (removeItem i h s)),
           s\<lparr> health := min (maxHealth s) (health s + amount) \<rparr>)"
      then obtain item amount where m: "item \<in> set (itemArrays h (inventory s))"
        and p: "item_type item = Potion" and e: "effectHealth item = Some amount"
        and r: "snd (useItem i h s) =
          (fst (snd (removeItem i h s)),
           s\<lparr> health := min (maxHealth s) (health s + amount) \<rparr>)"
        by blast
      from inv m have "potionOk item" by (simp add: list_all_iff)
      with p e have "0 \<le> amount" by (simp add: potionOk_def)
      with UseItem lo hi Pair r healthInv_removeItem_heap [OF inv, of i]
      show ?thesis by (simp add: healthInv_def)
    qed
  next
    case (AddGold a)
    with lo hi inv Pair show ?thesis by (simp add: healthInv_def addGold_def)
  next
    case (SpendGold a)
    with lo hi inv Pair show ?thesis by (simp add: healthInv_def spendGold_def)
  next
    case (GainExperience a)
    with lo hi inv Pair show ?thesis by (simp add: healthInv_def gainExperience_def Let_def)
  next
    case (CompleteQuest q)
    with lo hi inv Pair show ?thesis
      by (simp add: healthInv_def completeQuest_def pushString_def Let_def split: option.split)
  next
    case (AddQuest q)
    with lo hi inv Pair show ?thesis
      by (simp add: healthInv_def addQuest_def pushQuest_def split: option.split)
  next
    case (RestoreCrystal c)
    with lo hi inv Pair show ?thesis
      by (simp add: healthInv_def restoreCrystal_def pushString_def Let_def)
  qed
qed

lemma healthInv_initial: "healthInv (INITIAL_HEAP, gameEngine)"
  by (simp add: healthInv_def gameEngine_eq INITIAL_STATE_def INITIAL_HEAP_def potionOk_def
      effectHealth_def starterSword_def healthPotion_def)

text \<open>
  C4, as the source has it. In every state reached from the engine as constructed by a
  session of mutator calls in which \<open>takeDamage\<close> and \<open>heal\<close> get amounts that are not
  negative and no potion with a negative health effect is added (\<open>gainExperience\<close>
  any integer amount, \<open>setState\<close> the location only), \<open>0 \<le> health \<le> maxHealth\<close>
  holds. \<open>takeDamage\<close> clamps below only, at 0, and \<open>heal\<close> clamps above only, at
  \<open>maxHealth\<close>.
\<close>

theorem health_within_bounds:
  "(allowedRun healthOk ops (INITIAL_HEAP, gameEngine) \<longrightarrow>
      0 \<le> health (snd (run ops (INITIAL_HEAP, gameEngine))) \<and>
      health (snd (run ops (INITIAL_HEAP, gameEngine)))
        \<le> maxHealth (snd (run ops (INITIAL_HEAP, gameEngine))))
   \<and> health (snd (takeDamage amount s)) = max 0 (health s - amount)
   \<and> health (snd (heal amount s)) = min (maxHealth s) (health s + amount)"
proof (intro conjI impI)
  assume a: "allowedRun healthOk ops (INITIAL_HEAP, gameEngine)"
  have inv: "healthInv (run ops (INITIAL_HEAP, gameEngine))"
    by (rule allowedRun_invariant [where P = healthInv and ok = healthOk,
          OF healthInv_initial healthOk_step a])
  from inv show "0 \<le> health (snd (run ops (INITIAL_HEAP, gameEngine)))"
    by (simp add: healthInv_def)
  from inv show "health (snd (run ops (INITIAL_HEAP, gameEngine)))
        \<le> maxHealth (snd (run ops (INITIAL_HEAP, gameEngine)))"
    by (simp add: healthInv_def)
next
  show "health (snd (takeDamage amount s)) = max 0 (health s - amount)"
    by (simp add: takeDamage_def Let_def)
  show "health (snd (heal amount s)) = min (maxHealth s) (health s + amount)"
    by (simp add: heal_def Let_def)
qed

text \<open>
  A session with damage, healing, the starting potion, a level-up and a fatal blow.
\<close>

theorem health_within_bounds_witness:
  "allowedRun healthOk
     [TakeDamage 30, Heal 50, UseItem ''health-potion'', GainExperience 100, TakeDamage 500]
     (INITIAL_HEAP, gameEngine)
   \<and> 0 \<le> health (snd (run
       [TakeDamage 30, Heal 50, UseItem ''health-potion'', GainExperience 100, TakeDamage 500]
       (INITIAL_HEAP, gameEngine)))
   \<and> health (snd (run
       [TakeDamage 30, Heal 50, UseItem ''health-potion'', GainExperience 100, TakeDamage 500]
       (INITIAL_HEAP, gameEngine)))
     \<le> maxHealth (snd (run
       [TakeDamage 30, Heal 50, UseItem ''health-potion'', GainExperience 100, TakeDamage 500]
       (INITIAL_HEAP, gameEngine)))"
proof -
  have a: "allowedRun healthOk
     [TakeDamage 30, Heal 50, UseItem ''health-potion'', GainExperience 100, TakeDamage 500]
     (INITIAL_HEAP, gameEngine)"
    by simp
  from a health_within_bounds
    [where ops = "[TakeDamage 30, Heal 50, UseItem ''health-potion'', GainExperience 100,
                   TakeDamage 500]"]
  show ?thesis by simp
qed

text \<open>
  A negative amount passes the one-sided clamp: \<open>takeDamage (-50)\<close> at full health
  gives 150 of 100, and \<open>heal (-200)\<close> gives -100.
\<close>

theorem takeDamage_negative_counterexample:
  "health (snd (run [TakeDamage (- 50)] (INITIAL_HEAP, gameEngine))) = 150
   \<and> maxHealth (snd (run [TakeDamage (- 50)] (INITIAL_HEAP, gameEngine))) = 100
   \<and> \<not> health (snd (run [TakeDamage (- 50)] (INITIAL_HEAP, gameEngine)))
        \<le> maxHealth (snd (run [TakeDamage (- 50)] (INITIAL_HEAP, gameEngine)))
   \<and> health (snd (run [Heal (- 200)] (INITIAL_HEAP, gameEngine))) = - 100
   \<and> \<not> 0 \<le> health (snd (run [Heal (- 200)] (INITIAL_HEAP, gameEngine)))"
  by (simp add: run_def takeDamage_def heal_def gameEngine_eq INITIAL_STATE_def Let_def)

subsection \<open>Quests\<close>

lemma findIndex_Some:
  "findIndex P xs = Some i \<Longrightarrow> i < length xs \<and> P (xs ! i)"
  by (induction xs arbitrary: i) (auto split: if_splits option.splits)

lemma findIndex_None:
  "findIndex P xs = None \<Longrightarrow> \<forall>x \<in> set xs. \<not> P x"
  by (induction xs) (auto split: if_splits option.splits)

lemma completeQuest_found:
  assumes "findIndex (\<lambda>q. quest_id q = questId) (questArrays h (activeQuests s)) = Some i"
  shows "activeQuestsOf (fst (completeQuest questId h s)) (snd (completeQuest questId h s)) =
           filter (\<lambda>q. quest_id q \<noteq> questId)
             ((questArrays h (activeQuests s))
                [i := (questArrays h (activeQuests s) ! i)\<lparr> completed := True \<rparr>])"
    and "stringArrays (fst (completeQuest questId h s)) =
           (stringArrays h)(completedQuests s := stringArrays h (completedQuests s) @ [questId])"
    and "completedQuests (snd (completeQuest questId h s)) = completedQuests s"
    and "crystalsRestored (snd (completeQuest questId h s)) = crystalsRestored s"
  using assms
  by (simp_all add: completeQuest_def activeQuestsOf_def pushString_def Let_def)

lemma completeQuest_not_found:
  "findIndex (\<lambda>q. quest_id q = questId) (questArrays h (activeQuests s)) = None \<Longrightarrow>
   completeQuest questId h s = (h, s)"
  by (simp add: completeQuest_def)

lemma ids_after_completeQuest:
  assumes "i < length xs"
  shows "quest_id ` set (filter (\<lambda>q. quest_id q \<noteq> questId)
           (xs[i := (xs ! i)\<lparr> completed := True \<rparr>]))
         \<subseteq> quest_id ` set xs - {questId}"
proof
  fix x
  assume "x \<in> quest_id ` set (filter (\<lambda>q. quest_id q \<noteq> questId)
           (xs[i := (xs ! i)\<lparr> completed := True \<rparr>]))"
  then obtain q where q: "q \<in> set (xs[i := (xs ! i)\<lparr> completed := True \<rparr>])"
    and ne: "quest_id q \<noteq> questId" and x: "x = quest_id q"
    by auto
  from q have "q = (xs ! i)\<lparr> completed := True \<rparr> \<or> q \<in> set xs"
    using set_update_subset_insert [of xs i] by auto
  then have "quest_id q \<in> quest_id ` set xs"
  proof
    assume "q = (xs ! i)\<lparr> completed := True \<rparr>"
    then have "quest_id q = quest_id (xs ! i)" by simp
    with assms show ?thesis by (metis imageI nth_mem)
  next
    assume "q \<in> set xs"
    then show ?thesis by simp
  qed
  with ne x show "x \<in> quest_id ` set xs - {questId}" by simp
qed

lemma questInv_completeQuest:
  assumes "questInv (h, s)"
  shows "questInv (completeQuest questId h s)"
proof (cases "findIndex (\<lambda>q. quest_id q = questId) (questArrays h (activeQuests s))")
  case None
  with assms show ?thesis by (simp add: completeQuest_not_found)
next
  case (Some i)
  from assms have ne: "completedQuests s \<noteq> crystalsRestored s"
    and dis: "quest_id ` set (questArrays h (activeQuests s)) \<inter>
        set (stringArrays h (completedQuests s)) = {}"
    by (simp_all add: questInv_def activeQuestsOf_def completedQuestsOf_def)
  from findIndex_Some [OF Some] have len: "i < length (questArrays h (activeQuests s))"
    by simp
  note cq = completeQuest_found [OF Some]
  have "quest_id ` set (activeQuestsOf (fst (completeQuest questId h s))
          (snd (completeQuest questId h s)))
        \<subseteq> quest_id ` set (questArrays h (activeQuests s)) - {questId}"
    unfolding cq(1) by (rule ids_after_completeQuest [OF len])
  moreover have "set (completedQuestsOf (fst (completeQuest questId h s))
          (snd (completeQuest questId h s)))
        = insert questId (set (stringArrays h (completedQuests s)))"
    by (simp add: completedQuestsOf_def cq)
  ultimately have "quest_id ` set (activeQuestsOf (fst (completeQuest questId h s))
          (snd (completeQuest questId h s))) \<inter>
        set (completedQuestsOf (fst (completeQuest questId h s))
          (snd (completeQuest questId h s))) = {}"
    using dis by blast
  with ne show ?thesis by (simp add: questInv_def cq)
qed

lemma questInv_addQuest:
  assumes "questInv (h, s)" and "quest_id quest \<notin> set (completedQuestsOf h s)"
  shows "questInv (addQuest quest h s)"
  using assms
  by (auto simp add: questInv_def addQuest_def pushQuest_def activeQuestsOf_def
      completedQuestsOf_def split: option.split)

lemma questInv_restoreCrystal:
  assumes "questInv (h, s)"
  shows "questInv (restoreCrystal crystalType h s)"
proof (cases "crystalType \<in> set (stringArrays h (crystalsRestored s))")
  case True
  with assms show ?thesis by (simp add: restoreCrystal_present)
next
  case False
  from assms show ?thesis
    by (simp add: restoreCrystal_absent [OF False] questInv_def pushString_def
        activeQuestsOf_def completedQuestsOf_def)
qed

lemma removeItem_other_arrays:
  "questArrays (fst (snd (removeItem itemId h s))) = questArrays h"
  "stringArrays (fst (snd (removeItem itemId h s))) = stringArrays h"
  by (simp_all add: removeItem_def Let_def split: option.split)

lemma questInv_frame:
  assumes "questInv (h, s)"
    and "questArrays h' = questArrays h" and "stringArrays h' = stringArrays h"
    and "activeQuests s' = activeQuests s" and "completedQuests s' = completedQuests s"
    and "crystalsRestored s' = crystalsRestored s"
  shows "questInv (h', s')"
  using assms by (simp add: questInv_def activeQuestsOf_def completedQuestsOf_def)

lemma questOk_step:
  "questInv c \<Longrightarrow> questOk op c \<Longrightarrow> questInv (applyOp op c)"
proof (cases c)
  case (Pair h s)
  assume "questInv c" and ok: "questOk op c"
  with Pair have inv: "questInv (h, s)" by simp
  show ?thesis
  proof (cases op)
    case (SetState p)
    with ok Pair show ?thesis
      by (auto intro!: questInv_frame [OF inv] simp add: setState_locationOnly)
  next
    case (TakeDamage a)
    with Pair show ?thesis
      by (auto intro!: questInv_frame [OF inv] simp add: takeDamage_def Let_def)
  next
    case (Heal a)
    with Pair show ?thesis
      by (auto intro!: questInv_frame [OF inv] simp add: heal_def Let_def)
  next
    case (AddItem it)
    with Pair show ?thesis
      by (auto intro!: questInv_frame [OF inv] simp add: addItem_def pushItem_def)
  next
    case (RemoveItem i)
    have "questInv (fst (snd (removeItem i h s)), snd (snd (removeItem i h s)))"
      by (rule questInv_frame [OF inv]) (simp_all add: removeItem_other_arrays removeItem_state)
    with RemoveItem Pair show ?thesis by simp
  next
    case (UseItem i)
    from useItem_cases [of i h s]
    have "questInv (snd (useItem i h s))"
    proof
      assume "snd (useItem i h s) = (h, s)"
      with inv show ?thesis by simp
    next
      assume "\<exists>item amount. item \<in> set (itemArrays h (inventory s)) \<and> item_type item = Potion \<and>
        effectHealth item = Some amount \<and> amount \<noteq> 0 \<and>
        snd (useItem i h s) =
          (fst (snd (removeItem i h s)),
           s\<lparr> health := min (maxHealth s) (health s + amount) \<rparr>)"
      then obtain amount where r: "snd (useItem i h s) =
          (fst (snd (removeItem i h s)),
           s\<lparr> health := min (maxHealth s) (health s + amount) \<rparr>)"
        by blast
      show ?thesis
        unfolding r
        by (rule questInv_frame [OF inv]) (simp_all add: removeItem_other_arrays)
    qed
    with UseItem Pair show ?thesis by simp
  next
    case (AddGold a)
    with Pair show ?thesis
      by (auto intro!: questInv_frame [OF inv] simp add: addGold_def)
  next
    case (SpendGold a)
    with Pair show ?thesis
      by (auto intro!: questInv_frame [OF inv] simp add: spendGold_def)
  next
    case (GainExperience a)
    with Pair show ?thesis
      by (auto intro!: questInv_frame [OF inv] simp add: gainExperience_def Let_def)
  next
    case (CompleteQuest q)
    with Pair questInv_completeQuest [OF inv] show ?thesis by simp
  next
    case (AddQuest q)
    with ok Pair questInv_addQuest [OF inv] show ?thesis by simp
  next
    case (RestoreCrystal c)
    with Pair questInv_restoreCrystal [OF inv] show ?thesis by simp
  qed
qed

lemma questInv_initial: "questInv (INITIAL_HEAP, gameEngine)"
  by (simp add: questInv_def gameEngine_eq INITIAL_STATE_def INITIAL_HEAP_def
      activeQuestsOf_def completedQuestsOf_def)

lemma completeQuest_moves:
  assumes "questId \<in> quest_id ` set (activeQuestsOf h s)"
  shows "questId \<notin> quest_id ` set (activeQuestsOf (fst (completeQuest questId h s))
            (snd (completeQuest questId h s)))"
    and "completedQuestsOf (fst (completeQuest questId h s)) (snd (completeQuest questId h s)) =
           completedQuestsOf h s @ [questId]"
proof -
  obtain i where i: "findIndex (\<lambda>q. quest_id q = questId) (questArrays h (activeQuests s)) = Some i"
    using assms findIndex_None [of "\<lambda>q. quest_id q = questId" "questArrays h (activeQuests s)"]
    by (cases "findIndex (\<lambda>q. quest_id q = questId) (questArrays h (activeQuests s))")
       (auto simp add: activeQuestsOf_def)
  note cq = completeQuest_found [OF i]
  show "questId \<notin> quest_id ` set (activeQuestsOf (fst (completeQuest questId h s))
            (snd (completeQuest questId h s)))"
    unfolding cq(1) by auto
  show "completedQuestsOf (fst (completeQuest questId h s)) (snd (completeQuest questId h s)) =
           completedQuestsOf h s @ [questId]"
    by (simp add: completedQuestsOf_def cq)
qed

lemma addQuest_active:
  "activeQuestsOf (fst (addQuest quest h s)) (snd (addQuest quest h s)) =
     (if quest_id quest \<in> quest_id ` set (activeQuestsOf h s) then activeQuestsOf h s
      else activeQuestsOf h s @ [quest])"
proof (cases "find (\<lambda>q. quest_id q = quest_id quest) (questArrays h (activeQuests s))")
  case None
  then have "quest_id quest \<notin> quest_id ` set (activeQuestsOf h s)"
    by (auto simp add: find_None_iff activeQuestsOf_def)
  with None show ?thesis
    by (simp add: addQuest_def pushQuest_def activeQuestsOf_def)
next
  case (Some q)
  then have "quest_id quest \<in> quest_id ` set (activeQuestsOf h s)"
    by (auto simp add: find_Some_iff activeQuestsOf_def image_iff) (metis nth_mem)
  with Some show ?thesis
    by (simp add: addQuest_def)
qed

text \<open>
  C3, as the source has it. In every state reached from the engine as constructed by a
  session of mutator calls in which \<open>addQuest\<close> is never called with a quest whose id
  is already completed (\<open>setState\<close> the location only), no quest id is both in
  \<open>activeQuests\<close> and in \<open>completedQuests\<close>. \<open>completeQuest\<close> of an active id
  takes every quest with that id out of \<open>activeQuests\<close> and appends the id to
  \<open>completedQuests\<close>. \<open>addQuest\<close> looks at \<open>activeQuests\<close> only: it appends the
  quest unless an active quest has its id.
\<close>

theorem quest_in_one_collection:
  "(allowedRun questOk ops (INITIAL_HEAP, gameEngine) \<longrightarrow>
      quest_id ` set (activeQuestsOf (fst (run ops (INITIAL_HEAP, gameEngine)))
                                     (snd (run ops (INITIAL_HEAP, gameEngine))))
      \<inter> set (completedQuestsOf (fst (run ops (INITIAL_HEAP, gameEngine)))
                                (snd (run ops (INITIAL_HEAP, gameEngine)))) = {})
   \<and> (questId \<in> quest_id ` set (activeQuestsOf h s) \<longrightarrow>
        questId \<notin> quest_id ` set (activeQuestsOf (fst (completeQuest questId h s))
                                                  (snd (completeQuest questId h s))) \<and>
        completedQuestsOf (fst (completeQuest questId h s)) (snd (completeQuest questId h s))
          = completedQuestsOf h s @ [questId])
   \<and> activeQuestsOf (fst (addQuest quest h s)) (snd (addQuest quest h s)) =
       (if quest_id quest \<in> quest_id ` set (activeQuestsOf h s) then activeQuestsOf h s
        else activeQuestsOf h s @ [quest])"
proof (intro conjI impI)
  assume a: "allowedRun questOk ops (INITIAL_HEAP, gameEngine)"
  have "questInv (run ops (INITIAL_HEAP, gameEngine))"
    by (rule allowedRun_invariant [where P = questInv and ok = questOk,
          OF questInv_initial questOk_step a])
  then show "quest_id ` set (activeQuestsOf (fst (run ops (INITIAL_HEAP, gameEngine)))
                                     (snd (run ops (INITIAL_HEAP, gameEngine))))
      \<inter> set (completedQuestsOf (fst (run ops (INITIAL_HEAP, gameEngine)))
                                (snd (run ops (INITIAL_HEAP, gameEngine)))) = {}"
    by (simp add: questInv_def)
next
  assume q: "questId \<in> quest_id ` set (activeQuestsOf h s)"
  from completeQuest_moves(1) [OF q]
  show "questId \<notin> quest_id ` set (activeQuestsOf (fst (completeQuest questId h s))
                                                  (snd (completeQuest questId h s)))" .
  from completeQuest_moves(2) [OF q]
  show "completedQuestsOf (fst (completeQuest questId h s)) (snd (completeQuest questId h s))
          = completedQuestsOf h s @ [questId]" .
next
  show "activeQuestsOf (fst (addQuest quest h s)) (snd (addQuest quest h s)) =
       (if quest_id quest \<in> quest_id ` set (activeQuestsOf h s) then activeQuestsOf h s
        else activeQuestsOf h s @ [quest])"
    by (rule addQuest_active)
qed

text \<open>The first quest completed, then a second quest added.\<close>

lemma after_awakening:
  "completedQuestsOf (fst (completeQuest ''awakening'' INITIAL_HEAP gameEngine))
      (snd (completeQuest ''awakening'' INITIAL_HEAP gameEngine)) = [''awakening'']"
  "activeQuestsOf (fst (completeQuest ''awakening'' INITIAL_HEAP gameEngine))
      (snd (completeQuest ''awakening'' INITIAL_HEAP gameEngine)) = []"
  by (simp_all add: completeQuest_def pushString_def completedQuestsOf_def activeQuestsOf_def
      gameEngine_eq INITIAL_STATE_def INITIAL_HEAP_def awakeningQuest_def Let_def)

theorem quest_in_one_collection_witness:
  "allowedRun questOk [CompleteQuest ''awakening'', AddQuest natureQuest]
     (INITIAL_HEAP, gameEngine)
   \<and> quest_id ` set (activeQuestsOf
         (fst (run [CompleteQuest ''awakening'', AddQuest natureQuest] (INITIAL_HEAP, gameEngine)))
         (snd (run [CompleteQuest ''awakening'', AddQuest natureQuest] (INITIAL_HEAP, gameEngine))))
      \<inter> set (completedQuestsOf
         (fst (run [CompleteQuest ''awakening'', AddQuest natureQuest] (INITIAL_HEAP, gameEngine)))
         (snd (run [CompleteQuest ''awakening'', AddQuest natureQuest] (INITIAL_HEAP, gameEngine))))
      = {}
   \<and> ''awakening'' \<in> quest_id ` set (activeQuestsOf INITIAL_HEAP gameEngine)
   \<and> completedQuestsOf (fst (completeQuest ''awakening'' INITIAL_HEAP gameEngine))
        (snd (completeQuest ''awakening'' INITIAL_HEAP gameEngine))
      = completedQuestsOf INITIAL_HEAP gameEngine @ [''awakening'']"
proof -
  have a: "allowedRun questOk [CompleteQuest ''awakening'', AddQuest natureQuest]
     (INITIAL_HEAP, gameEngine)"
    by (simp add: after_awakening natureQuest_def)
  have q: "''awakening'' \<in> quest_id ` set (activeQuestsOf INITIAL_HEAP gameEngine)"
    by (simp add: activeQuestsOf_def gameEngine_eq INITIAL_STATE_def INITIAL_HEAP_def
        awakeningQuest_def)
  from a q quest_in_one_collection
    [where ops = "[CompleteQuest ''awakening'', AddQuest natureQuest]"
       and questId = "''awakening''" and h = INITIAL_HEAP and s = gameEngine]
  show ?thesis by simp
qed

text \<open>
  The first quest completed and then added again: its id is completed and active.
\<close>

theorem addQuest_completed_counterexample:
  "''awakening'' \<in> set (completedQuestsOf
       (fst (run [CompleteQuest ''awakening''] (INITIAL_HEAP, gameEngine)))
       (snd (run [CompleteQuest ''awakening''] (INITIAL_HEAP, gameEngine))))
   \<and> ''awakening'' \<in> quest_id ` set (activeQuestsOf
       (fst (run [CompleteQuest ''awakening'', AddQuest awakeningQuest] (INITIAL_HEAP, gameEngine)))
       (snd (run [CompleteQuest ''awakening'', AddQuest awakeningQuest] (INITIAL_HEAP, gameEngine))))
   \<and> ''awakening'' \<in> set (completedQuestsOf
       (fst (run [CompleteQuest ''awakening'', AddQuest awakeningQuest] (INITIAL_HEAP, gameEngine)))
       (snd (run [CompleteQuest ''awakening'', AddQuest awakeningQuest] (INITIAL_HEAP, gameEngine))))"
proof -
  have act: "activeQuestsOf
       (fst (addQuest awakeningQuest (fst (completeQuest ''awakening'' INITIAL_HEAP gameEngine))
               (snd (completeQuest ''awakening'' INITIAL_HEAP gameEngine))))
       (snd (addQuest awakeningQuest (fst (completeQuest ''awakening'' INITIAL_HEAP gameEngine))
               (snd (completeQuest ''awakening'' INITIAL_HEAP gameEngine)))) = [awakeningQuest]"
    by (simp add: addQuest_active after_awakening)
  have com: "completedQuestsOf
       (fst (addQuest awakeningQuest (fst (completeQuest ''awakening'' INITIAL_HEAP gameEngine))
               (snd (completeQuest ''awakening'' INITIAL_HEAP gameEngine))))
       (snd (addQuest awakeningQuest (fst (completeQuest ''awakening'' INITIAL_HEAP gameEngine))
               (snd (completeQuest ''awakening'' INITIAL_HEAP gameEngine)))) = [''awakening'']"
    using after_awakening(1)
    by (simp add: addQuest_def pushQuest_def completedQuestsOf_def split: option.split)
  have r1: "run [CompleteQuest ''awakening''] (INITIAL_HEAP, gameEngine) =
      completeQuest ''awakening'' INITIAL_HEAP gameEngine"
    by (simp add: run_def)
  have r2: "run [CompleteQuest ''awakening'', AddQuest awakeningQuest] (INITIAL_HEAP, gameEngine) =
      addQuest awakeningQuest (fst (completeQuest ''awakening'' INITIAL_HEAP gameEngine))
               (snd (completeQuest ''awakening'' INITIAL_HEAP gameEngine))"
  proof -
    obtain h1 s1 where "completeQuest ''awakening'' INITIAL_HEAP gameEngine = (h1, s1)"
      by (cases "completeQuest ''awakening'' INITIAL_HEAP gameEngine")
    then show ?thesis by (simp add: run_def)
  qed
  show ?thesis
    unfolding r1 r2 act com after_awakening
    by (simp add: awakeningQuest_def)
qed

subsection \<open>Using items\<close>

text \<open>
  \<open>find\<close> and \<open>findIndex\<close> stop at the same element, the first with the id, and
  \<open>splice\<close> at its index removes its first occurrence.
\<close>

lemma find_findIndex:
  "find P xs = Some x \<Longrightarrow>
   \<exists>i. findIndex P xs = Some i \<and> xs ! i = x \<and> splice1 i xs = remove1 x xs"
proof (induction xs)
  case Nil
  then show ?case by simp
next
  case (Cons a xs)
  show ?case
  proof (cases "P a")
    case True
    with Cons.prems show ?thesis by (simp add: splice1_def)
  next
    case False
    with Cons.prems have f: "find P xs = Some x" by simp
    then have "P x" by (auto simp add: find_Some_iff)
    with False have ne: "x \<noteq> a" by auto
    from Cons.IH [OF f] obtain i where "findIndex P xs = Some i" and "xs ! i = x"
      and "splice1 i xs = remove1 x xs"
      by blast
    with False ne show ?thesis by (simp add: splice1_def)
  qed
qed

lemma removeItem_found:
  assumes "find (\<lambda>i. item_id i = itemId) (itemArrays h (inventory s)) = Some item"
  shows "removeItem itemId h s =
    (Some item,
     h\<lparr> itemArrays := (itemArrays h)
          (inventory s := remove1 item (itemArrays h (inventory s))) \<rparr>,
     s)"
proof -
  from find_findIndex [OF assms] obtain i
    where "findIndex (\<lambda>i. item_id i = itemId) (itemArrays h (inventory s)) = Some i"
      and "itemArrays h (inventory s) ! i = item"
      and "splice1 i (itemArrays h (inventory s)) = remove1 item (itemArrays h (inventory s))"
    by blast
  then show ?thesis by (simp add: removeItem_def Let_def)
qed

lemma useItem_success:
  assumes f: "find (\<lambda>i. item_id i = itemId) (itemArrays h (inventory s)) = Some item"
    and p: "item_type item = Potion"
    and e: "effectHealth item = Some amount"
    and nz: "amount \<noteq> 0"
  shows "useItem itemId h s =
    (\<lparr> success = True,
       message = ''Used '' @ item_name item @ ''. Restored '' @
                 numberToString (min amount (maxHealth s - health s)) @ '' HP!'',
       healthRestored = Some (min amount (maxHealth s - health s)) \<rparr>,
     h\<lparr> itemArrays := (itemArrays h)
          (inventory s := remove1 item (itemArrays h (inventory s))) \<rparr>,
     s\<lparr> health := min (maxHealth s) (health s + amount) \<rparr>)"
proof -
  have hl: "heal amount s =
      (min amount (maxHealth s - health s),
       s\<lparr> health := min (maxHealth s) (health s + amount) \<rparr>)"
    by (simp add: heal_def Let_def min_def)
  have f': "find (\<lambda>i. item_id i = itemId)
      (itemArrays h (inventory (s\<lparr> health := min (maxHealth s) (health s + amount) \<rparr>)))
      = Some item"
    using f by simp
  have rm: "removeItem itemId h (s\<lparr> health := min (maxHealth s) (health s + amount) \<rparr>) =
      (Some item,
       h\<lparr> itemArrays := (itemArrays h)
            (inventory s := remove1 item (itemArrays h (inventory s))) \<rparr>,
       s\<lparr> health := min (maxHealth s) (health s + amount) \<rparr>)"
    using removeItem_found [OF f'] by simp
  show ?thesis
    using f p e nz by (simp add: useItem_def hl rm)
qed

lemma useItem_not_found:
  "find (\<lambda>i. item_id i = itemId) (itemArrays h (inventory s)) = None \<Longrightarrow>
   useItem itemId h s =
     (\<lparr> success = False, message = ''Item not found'', healthRestored = None \<rparr>, h, s)"
  by (simp add: useItem_def)

lemma useItem_unusable:
  assumes "find (\<lambda>i. item_id i = itemId) (itemArrays h (inventory s)) = Some item"
    and "item_type item \<noteq> Potion \<or> effectHealth item = None \<or> effectHealth item = Some 0"
  shows "useItem itemId h s =
     (\<lparr> success = False, message = ''Cannot use this item now'', healthRestored = None \<rparr>,
      h, s)"
  using assms by (auto simp add: useItem_def)

text \<open>
  C7, as the source has it. \<open>useItem\<close> looks at the first item of the inventory with
  the given id. If that item is a potion whose health effect is present and not 0, it
  heals by that amount, removes that item from the inventory array, and reports success
  with the amount actually healed, \<open>min amount (maxHealth - health)\<close>, also in the
  message; this is success with 0 healed when health is full and the amount positive. If
  no item has the id it reports "Item not found". If the first item with the id is not a
  potion, or has no health effect, or has the health effect 0, it reports "Cannot use
  this item now". Both failures leave the state and the arrays as they are.
\<close>

theorem useItem_potion_or_failure:
  "(find (\<lambda>i. item_id i = itemId) (inventoryOf h s) = Some item \<and>
    item_type item = Potion \<and> effectHealth item = Some amount \<and> amount \<noteq> 0 \<longrightarrow>
      useItem itemId h s =
        (\<lparr> success = True,
           message = ''Used '' @ item_name item @ ''. Restored '' @
                     numberToString (min amount (maxHealth s - health s)) @ '' HP!'',
           healthRestored = Some (min amount (maxHealth s - health s)) \<rparr>,
         h\<lparr> itemArrays := (itemArrays h)
              (inventory s := remove1 item (inventoryOf h s)) \<rparr>,
         s\<lparr> health := min (maxHealth s) (health s + amount) \<rparr>))
   \<and> (find (\<lambda>i. item_id i = itemId) (inventoryOf h s) = None \<longrightarrow>
        useItem itemId h s =
          (\<lparr> success = False, message = ''Item not found'', healthRestored = None \<rparr>, h, s))
   \<and> (find (\<lambda>i. item_id i = itemId) (inventoryOf h s) = Some item \<and>
        (item_type item \<noteq> Potion \<or> effectHealth item = None \<or> effectHealth item = Some 0) \<longrightarrow>
        useItem itemId h s =
          (\<lparr> success = False, message = ''Cannot use this item now'',
             healthRestored = None \<rparr>, h, s))"
proof (intro conjI impI)
  assume "find (\<lambda>i. item_id i = itemId) (inventoryOf h s) = Some item \<and>
    item_type item = Potion \<and> effectHealth item = Some amount \<and> amount \<noteq> 0"
  then show "useItem itemId h s =
        (\<lparr> success = True,
           message = ''Used '' @ item_name item @ ''. Restored '' @
                     numberToString (min amount (maxHealth s - health s)) @ '' HP!'',
           healthRestored = Some (min amount (maxHealth s - health s)) \<rparr>,
         h\<lparr> itemArrays := (itemArrays h)
              (inventory s := remove1 item (inventoryOf h s)) \<rparr>,
         s\<lparr> health := min (maxHealth s) (health s + amount) \<rparr>)"
    unfolding inventoryOf_def by (intro useItem_success) simp_all
next
  assume "find (\<lambda>i. item_id i = itemId) (inventoryOf h s) = None"
  then show "useItem itemId h s =
          (\<lparr> success = False, message = ''Item not found'', healthRestored = None \<rparr>, h, s)"
    unfolding inventoryOf_def by (rule useItem_not_found)
next
  assume "find (\<lambda>i. item_id i = itemId) (inventoryOf h s) = Some item \<and>
        (item_type item \<noteq> Potion \<or> effectHealth item = None \<or> effectHealth item = Some 0)"
  then show "useItem itemId h s =
          (\<lparr> success = False, message = ''Cannot use this item now'',
             healthRestored = None \<rparr>, h, s)"
    unfolding inventoryOf_def by (intro useItem_unusable [where item = item]) simp_all
qed

text \<open>Facts about the starting inventory and the example items.\<close>

lemma initial_inventory:
  "inventoryOf INITIAL_HEAP gameEngine = [starterSword, healthPotion]"
  by (simp add: inventoryOf_def gameEngine_eq INITIAL_STATE_def INITIAL_HEAP_def)

lemma item_facts:
  "item_id starterSword = ''starter-sword''" "item_type starterSword = Weapon"
  "item_id healthPotion = ''health-potion''" "item_type healthPotion = Potion"
  "effectHealth healthPotion = Some 30" "item_name healthPotion = ''Health Potion''"
  "item_id weakTonic = ''weak-tonic''" "item_type weakTonic = Potion"
  "effectHealth weakTonic = Some 0"
  "item_effect weakTonic =
     Some \<lparr> effect_health = Some 0, effect_damage = None, effect_defense = None \<rparr>"
  "item_id decoyPotion = ''health-potion''" "item_type decoyPotion = Potion"
  "effectHealth decoyPotion = Some 0"
  "item_effect decoyPotion =
     Some \<lparr> effect_health = Some 0, effect_damage = None, effect_defense = None \<rparr>"
  by (simp_all add: starterSword_def healthPotion_def weakTonic_def decoyPotion_def
      effectHealth_def)

lemma numberToString_0: "numberToString 0 = ''0''"
  by code_simp

lemma inventory_with:
  "itemArrays (fst (addItem item INITIAL_HEAP gameEngine)) (inventory gameEngine)
     = [starterSword, healthPotion, item]"
  using initial_inventory by (simp add: addItem_def pushItem_def inventoryOf_def)

text \<open>
  On the engine as constructed, with full health: the health potion is used up for 0
  points, an unknown id is not found, and the sword cannot be used.
\<close>

theorem useItem_potion_or_failure_witness:
  "fst (useItem ''health-potion'' INITIAL_HEAP gameEngine) =
     \<lparr> success = True, message = ''Used Health Potion. Restored 0 HP!'',
       healthRestored = Some 0 \<rparr>
   \<and> inventoryOf (fst (snd (useItem ''health-potion'' INITIAL_HEAP gameEngine)))
        (snd (snd (useItem ''health-potion'' INITIAL_HEAP gameEngine))) = [starterSword]
   \<and> useItem ''elixir'' INITIAL_HEAP gameEngine =
       (\<lparr> success = False, message = ''Item not found'', healthRestored = None \<rparr>,
        INITIAL_HEAP, gameEngine)
   \<and> useItem ''starter-sword'' INITIAL_HEAP gameEngine =
       (\<lparr> success = False, message = ''Cannot use this item now'', healthRestored = None \<rparr>,
        INITIAL_HEAP, gameEngine)"
proof -
  have potion: "find (\<lambda>i. item_id i = ''health-potion'') (inventoryOf INITIAL_HEAP gameEngine)
        = Some healthPotion \<and>
      item_type healthPotion = Potion \<and> effectHealth healthPotion = Some 30 \<and> (30::int) \<noteq> 0"
    by (simp add: initial_inventory item_facts)
  have absent: "find (\<lambda>i. item_id i = ''elixir'') (inventoryOf INITIAL_HEAP gameEngine) = None"
    by (simp add: initial_inventory item_facts)
  have sword: "find (\<lambda>i. item_id i = ''starter-sword'') (inventoryOf INITIAL_HEAP gameEngine)
        = Some starterSword \<and>
      (item_type starterSword \<noteq> Potion \<or> effectHealth starterSword = None \<or>
       effectHealth starterSword = Some 0)"
    by (simp add: initial_inventory item_facts)
  have full: "maxHealth gameEngine - health gameEngine = 0" "inventory gameEngine = 0"
    by (simp_all add: gameEngine_eq INITIAL_STATE_def)
  have ne: "healthPotion \<noteq> starterSword"
    by (simp add: healthPotion_def starterSword_def)
  have arr: "itemArrays INITIAL_HEAP 0 = [starterSword, healthPotion]"
    by (simp add: INITIAL_HEAP_def)
  from potion absent sword
    useItem_potion_or_failure
      [where itemId = "''health-potion''" and h = INITIAL_HEAP and s = gameEngine
         and item = healthPotion and amount = 30]
    useItem_potion_or_failure
      [where itemId = "''elixir''" and h = INITIAL_HEAP and s = gameEngine]
    useItem_potion_or_failure
      [where itemId = "''starter-sword''" and h = INITIAL_HEAP and s = gameEngine
         and item = starterSword]
  show ?thesis
    by (simp add: full ne arr initial_inventory item_facts numberToString_0 inventoryOf_def)
qed

text \<open>
  A potion with a health effect of 0 is in the inventory under an id of its own, and
  \<open>useItem\<close> on that id fails and changes nothing.
\<close>

theorem useItem_zero_effect_counterexample:
  "weakTonic \<in> set (inventoryOf (fst (addItem weakTonic INITIAL_HEAP gameEngine)) gameEngine)
   \<and> item_type weakTonic = Potion
   \<and> effectHealth weakTonic = Some 0
   \<and> useItem (item_id weakTonic) (fst (addItem weakTonic INITIAL_HEAP gameEngine)) gameEngine =
       (\<lparr> success = False, message = ''Cannot use this item now'', healthRestored = None \<rparr>,
        fst (addItem weakTonic INITIAL_HEAP gameEngine), gameEngine)"
proof -
  have inv: "itemArrays (fst (addItem weakTonic INITIAL_HEAP gameEngine)) (inventory gameEngine)
      = [starterSword, healthPotion, weakTonic]"
    using initial_inventory by (simp add: addItem_def pushItem_def inventoryOf_def)
  have "find (\<lambda>i. item_id i = item_id weakTonic)
      (itemArrays (fst (addItem weakTonic INITIAL_HEAP gameEngine)) (inventory gameEngine))
      = Some weakTonic"
    by (simp add: inv item_facts)
  from useItem_unusable [OF this] inv show ?thesis
    by (simp add: item_facts inventoryOf_def)
qed

text \<open>
  C10, as the source has it. If the first item of the inventory with the given id is a
  potion whose effect record is present with the health field 0, \<open>useItem\<close> on that id
  reports the failure "Cannot use this item now" and leaves the state and the arrays as
  they are; the item is still in the inventory. A potion with no health effect at all
  gives the same result.
\<close>

theorem useItem_zero_health_effect:
  "(find (\<lambda>i. item_id i = itemId) (inventoryOf h s) = Some item \<and>
    item_type item = Potion \<and> item_effect item = Some e \<and> effect_health e = Some 0 \<longrightarrow>
      useItem itemId h s =
        (\<lparr> success = False, message = ''Cannot use this item now'',
           healthRestored = None \<rparr>, h, s) \<and>
      item \<in> set (inventoryOf (fst (snd (useItem itemId h s))) (snd (snd (useItem itemId h s)))))
   \<and> (find (\<lambda>i. item_id i = itemId) (inventoryOf h s) = Some item \<and>
        item_type item = Potion \<and> effectHealth item = None \<longrightarrow>
      useItem itemId h s =
        (\<lparr> success = False, message = ''Cannot use this item now'',
           healthRestored = None \<rparr>, h, s))"
proof (intro conjI impI)
  assume a: "find (\<lambda>i. item_id i = itemId) (inventoryOf h s) = Some item \<and>
    item_type item = Potion \<and> item_effect item = Some e \<and> effect_health e = Some 0"
  then have f: "find (\<lambda>i. item_id i = itemId) (itemArrays h (inventory s)) = Some item"
    and z: "effectHealth item = Some 0"
    by (simp_all add: inventoryOf_def effectHealth_def)
  from z have "item_type item \<noteq> Potion \<or> effectHealth item = None \<or> effectHealth item = Some 0"
    by simp
  from useItem_unusable [OF f this]
  show r: "useItem itemId h s =
        (\<lparr> success = False, message = ''Cannot use this item now'',
           healthRestored = None \<rparr>, h, s)" .
  from find_in_set [OF f]
  show "item \<in> set (inventoryOf (fst (snd (useItem itemId h s))) (snd (snd (useItem itemId h s))))"
    by (simp add: r inventoryOf_def)
next
  assume a: "find (\<lambda>i. item_id i = itemId) (inventoryOf h s) = Some item \<and>
        item_type item = Potion \<and> effectHealth item = None"
  then have f: "find (\<lambda>i. item_id i = itemId) (itemArrays h (inventory s)) = Some item"
    by (simp add: inventoryOf_def)
  from a have "item_type item \<noteq> Potion \<or> effectHealth item = None \<or> effectHealth item = Some 0"
    by simp
  from useItem_unusable [OF f this]
  show "useItem itemId h s =
        (\<lparr> success = False, message = ''Cannot use this item now'',
           healthRestored = None \<rparr>, h, s)" .
qed

text \<open>The potion with effect 0, and a potion with no effect record.\<close>

theorem useItem_zero_health_effect_witness:
  "find (\<lambda>i. item_id i = ''weak-tonic'')
      (inventoryOf (fst (addItem weakTonic INITIAL_HEAP gameEngine)) gameEngine) = Some weakTonic
   \<and> item_type weakTonic = Potion
   \<and> item_effect weakTonic =
       Some \<lparr> effect_health = Some 0, effect_damage = None, effect_defense = None \<rparr>
   \<and> useItem ''weak-tonic'' (fst (addItem weakTonic INITIAL_HEAP gameEngine)) gameEngine =
       (\<lparr> success = False, message = ''Cannot use this item now'', healthRestored = None \<rparr>,
        fst (addItem weakTonic INITIAL_HEAP gameEngine), gameEngine)
   \<and> find (\<lambda>i. item_id i = ''plain-potion'')
      (inventoryOf (fst (addItem (weakTonic\<lparr> item_id := ''plain-potion'', item_effect := None \<rparr>)
                      INITIAL_HEAP gameEngine)) gameEngine)
      = Some (weakTonic\<lparr> item_id := ''plain-potion'', item_effect := None \<rparr>)
   \<and> useItem ''plain-potion''
        (fst (addItem (weakTonic\<lparr> item_id := ''plain-potion'', item_effect := None \<rparr>)
                INITIAL_HEAP gameEngine)) gameEngine =
       (\<lparr> success = False, message = ''Cannot use this item now'', healthRestored = None \<rparr>,
        fst (addItem (weakTonic\<lparr> item_id := ''plain-potion'', item_effect := None \<rparr>)
                INITIAL_HEAP gameEngine), gameEngine)"
proof -
  have zero: "find (\<lambda>i. item_id i = ''weak-tonic'')
      (inventoryOf (fst (addItem weakTonic INITIAL_HEAP gameEngine)) gameEngine) = Some weakTonic
    \<and> item_type weakTonic = Potion
    \<and> item_effect weakTonic =
       Some \<lparr> effect_health = Some 0, effect_damage = None, effect_defense = None \<rparr>
    \<and> effect_health \<lparr> effect_health = Some 0, effect_damage = None, effect_defense = None \<rparr>
       = Some (0::int)"
    by (simp add: inventoryOf_def inventory_with item_facts)
  have none: "find (\<lambda>i. item_id i = ''plain-potion'')
      (inventoryOf (fst (addItem (weakTonic\<lparr> item_id := ''plain-potion'', item_effect := None \<rparr>)
                      INITIAL_HEAP gameEngine)) gameEngine)
      = Some (weakTonic\<lparr> item_id := ''plain-potion'', item_effect := None \<rparr>)
    \<and> item_type (weakTonic\<lparr> item_id := ''plain-potion'', item_effect := None \<rparr>) = Potion
    \<and> effectHealth (weakTonic\<lparr> item_id := ''plain-potion'', item_effect := None \<rparr>) = None"
    by (simp add: inventoryOf_def inventory_with item_facts effectHealth_def)
  from zero none
    useItem_zero_health_effect
      [where itemId = "''weak-tonic''" and item = weakTonic and s = gameEngine
         and h = "fst (addItem weakTonic INITIAL_HEAP gameEngine)"
         and e = "\<lparr> effect_health = Some 0, effect_damage = None, effect_defense = None \<rparr>"]
    useItem_zero_health_effect
      [where itemId = "''plain-potion''"
         and item = "weakTonic\<lparr> item_id := ''plain-potion'', item_effect := None \<rparr>"
         and s = gameEngine
         and h = "fst (addItem (weakTonic\<lparr> item_id := ''plain-potion'', item_effect := None \<rparr>)
                        INITIAL_HEAP gameEngine)"]
  show ?thesis by simp
qed

text \<open>
  \<open>addItem\<close> accepts an id that is already there. With the zero-effect potion added
  under the id of the starting health potion, the inventory contains a potion with a
  present effect record and health 0, yet \<open>useItem\<close> on its id succeeds: it finds the
  health potion first and removes that one.
\<close>

theorem useItem_duplicate_id_counterexample:
  "decoyPotion \<in> set (inventoryOf (fst (addItem decoyPotion INITIAL_HEAP gameEngine)) gameEngine)
   \<and> item_type decoyPotion = Potion
   \<and> item_effect decoyPotion =
       Some \<lparr> effect_health = Some 0, effect_damage = None, effect_defense = None \<rparr>
   \<and> success (fst (useItem (item_id decoyPotion)
                    (fst (addItem decoyPotion INITIAL_HEAP gameEngine)) gameEngine)) = True
   \<and> inventoryOf
        (fst (snd (useItem (item_id decoyPotion)
                     (fst (addItem decoyPotion INITIAL_HEAP gameEngine)) gameEngine)))
        (snd (snd (useItem (item_id decoyPotion)
                     (fst (addItem decoyPotion INITIAL_HEAP gameEngine)) gameEngine)))
       = [starterSword, decoyPotion]"
proof -
  have f: "find (\<lambda>i. item_id i = item_id decoyPotion)
      (itemArrays (fst (addItem decoyPotion INITIAL_HEAP gameEngine)) (inventory gameEngine))
      = Some healthPotion"
    by (simp add: inventory_with item_facts)
  have ne: "healthPotion \<noteq> starterSword"
    by (simp add: healthPotion_def starterSword_def)
  have ref: "inventory gameEngine = 0"
    by (simp add: gameEngine_eq INITIAL_STATE_def)
  from useItem_success [OF f, where amount = 30] inventory_with [of decoyPotion]
  show ?thesis
    by (simp add: item_facts inventoryOf_def ne ref)
qed

subsection \<open>getState and the constructor\<close>

text \<open>The world after the module is loaded: the engine's state object is object 1.\<close>

lemma module_world:
  "gameEngine_state = 1" "nextObject MODULE_WORLD = 2" "heap MODULE_WORLD = INITIAL_HEAP"
  "stateObjects MODULE_WORLD (Suc 0) = gameEngine"
  by (simp_all add: gameEngine_def gameEngine_state_def MODULE_WORLD_def newGameEngine_def
      newObject_def INITIAL_WORLD_def)

text \<open>
  C2, as the source has it. For an engine whose state object exists, \<open>getState\<close>
  returns a shallow copy: a new object, other than the engine's, with the field values
  of the engine's state object, which it leaves as it was, as it leaves the arrays. So
  no assignment by the caller to fields of the returned object changes what the engine
  observes. The four collection fields of the copy refer to the very arrays the engine
  uses: a change made in place to a returned collection is a change of the engine's
  collection, and after it the engine observes exactly the new contents. The
  constructor copies in the same way: the engine gets a new state object with the
  fields of the initial state, shares the arrays with it, and what the engine adds to
  its inventory appears in the inventory of the initial state.
\<close>

theorem getState_shallow_copy:
  "(this_state < nextObject w \<longrightarrow>
      (case getState this_state w of (r, w') \<Rightarrow>
         r \<noteq> this_state
         \<and> stateObjects w' r = stateObjects w this_state
         \<and> stateObjects w' this_state = stateObjects w this_state
         \<and> heap w' = heap w
         \<and> observeEngine (callerMutate (AssignFields p) r w') this_state
             = observeEngine w this_state
         \<and> inventoryOf (heap (callerMutate (OverwriteInventory items) r w'))
               (stateObjects (callerMutate (OverwriteInventory items) r w') this_state)
             = items
         \<and> activeQuestsOf (heap (callerMutate (OverwriteActiveQuests quests) r w'))
               (stateObjects (callerMutate (OverwriteActiveQuests quests) r w') this_state)
             = quests
         \<and> completedQuestsOf (heap (callerMutate (OverwriteCompletedQuests ids) r w'))
               (stateObjects (callerMutate (OverwriteCompletedQuests ids) r w') this_state)
             = ids
         \<and> crystalsRestoredOf (heap (callerMutate (OverwriteCrystalsRestored crystals) r w'))
               (stateObjects (callerMutate (OverwriteCrystalsRestored crystals) r w') this_state)
             = crystals))
   \<and> (initialState < nextObject w \<longrightarrow>
      (case newGameEngine initialState w of (e, w') \<Rightarrow>
         e \<noteq> initialState
         \<and> stateObjects w' e = stateObjects w initialState
         \<and> stateObjects w' initialState = stateObjects w initialState
         \<and> heap w' = heap w
         \<and> inventoryOf (fst (addItem item (heap w') (stateObjects w' e)))
               (stateObjects w' initialState)
             = inventoryOf (heap w) (stateObjects w initialState) @ [item]))"
  by (simp add: getState_def newGameEngine_def newObject_def spread_id observeEngine_def
      observe_def inventoryOf_def activeQuestsOf_def completedQuestsOf_def
      crystalsRestoredOf_def addItem_def pushItem_def)

text \<open>
  On the exported engine: the copy is another object than the engine's, and the
  assignment \<open>health = 0\<close> to the copy changes nothing the engine observes. The
  exported engine's state object is another object than \<open>INITIAL_STATE\<close>.
\<close>

theorem getState_shallow_copy_witness:
  "gameEngine_state < nextObject MODULE_WORLD
   \<and> fst (getState gameEngine_state MODULE_WORLD) \<noteq> gameEngine_state
   \<and> observeEngine
        (callerMutate (AssignFields healthZero) (fst (getState gameEngine_state MODULE_WORLD))
           (snd (getState gameEngine_state MODULE_WORLD)))
        gameEngine_state
       = observeEngine MODULE_WORLD gameEngine_state
   \<and> (0::nat) < nextObject INITIAL_WORLD
   \<and> fst (newGameEngine 0 INITIAL_WORLD) \<noteq> 0"
proof -
  have a: "gameEngine_state < nextObject MODULE_WORLD"
    by (simp add: module_world)
  have b: "(0::nat) < nextObject INITIAL_WORLD"
    by (simp add: INITIAL_WORLD_def)
  note g = getState_shallow_copy
      [where this_state = gameEngine_state and w = MODULE_WORLD and p = healthZero
         and items = "[]" and quests = "[]" and ids = "[]" and crystals = "[]"
         and initialState = 0 and item = weakTonic,
       THEN conjunct1, THEN mp, OF a]
  note c = getState_shallow_copy
      [where this_state = 0 and w = INITIAL_WORLD and p = healthZero
         and items = "[]" and quests = "[]" and ids = "[]" and crystals = "[]"
         and initialState = 0 and item = weakTonic,
       THEN conjunct2, THEN mp, OF b]
  from a b g c show ?thesis unfolding case_prod_beta by blast
qed

text \<open>
  The caller empties the inventory array of the object it got from \<open>getState\<close>. The
  engine observes another state than before, and its next \<open>useItem\<close> of the health
  potion, which would have succeeded, reports that the item is not found.
\<close>

theorem getState_nested_mutation_counterexample:
  "observeEngine
      (callerMutate (OverwriteInventory []) (fst (getState gameEngine_state MODULE_WORLD))
         (snd (getState gameEngine_state MODULE_WORLD)))
      gameEngine_state
     \<noteq> observeEngine MODULE_WORLD gameEngine_state
   \<and> success (fst (useItem ''health-potion'' (heap MODULE_WORLD)
                    (stateObjects MODULE_WORLD gameEngine_state))) = True
   \<and> fst (useItem ''health-potion''
        (heap (callerMutate (OverwriteInventory []) (fst (getState gameEngine_state MODULE_WORLD))
                 (snd (getState gameEngine_state MODULE_WORLD))))
        (stateObjects
           (callerMutate (OverwriteInventory []) (fst (getState gameEngine_state MODULE_WORLD))
              (snd (getState gameEngine_state MODULE_WORLD)))
           gameEngine_state))
     = \<lparr> success = False, message = ''Item not found'', healthRestored = None \<rparr>"
proof -
  have ref: "inventory gameEngine = 0"
    by (simp add: gameEngine_eq INITIAL_STATE_def)
  have arr: "itemArrays INITIAL_HEAP 0 = [starterSword, healthPotion]"
    by (simp add: INITIAL_HEAP_def)
  have w2: "heap (callerMutate (OverwriteInventory []) (fst (getState gameEngine_state MODULE_WORLD))
                 (snd (getState gameEngine_state MODULE_WORLD)))
        = INITIAL_HEAP\<lparr> itemArrays := (itemArrays INITIAL_HEAP)(0 := []) \<rparr>"
    "stateObjects
           (callerMutate (OverwriteInventory []) (fst (getState gameEngine_state MODULE_WORLD))
              (snd (getState gameEngine_state MODULE_WORLD)))
           gameEngine_state = gameEngine"
    by (simp_all add: getState_def newObject_def module_world spread_id ref)
  have before: "find (\<lambda>i. item_id i = ''health-potion'')
      (itemArrays INITIAL_HEAP (inventory gameEngine)) = Some healthPotion"
    by (simp add: ref arr item_facts)
  have after: "find (\<lambda>i. item_id i = ''health-potion'')
      (itemArrays (INITIAL_HEAP\<lparr> itemArrays := (itemArrays INITIAL_HEAP)(0 := []) \<rparr>)
         (inventory gameEngine)) = None"
    by (simp add: ref)
  have e: "stateObjects MODULE_WORLD gameEngine_state = gameEngine"
    by (simp add: gameEngine_def)
  have c1: "observeEngine
      (callerMutate (OverwriteInventory []) (fst (getState gameEngine_state MODULE_WORLD))
         (snd (getState gameEngine_state MODULE_WORLD)))
      gameEngine_state
     \<noteq> observeEngine MODULE_WORLD gameEngine_state"
    unfolding observeEngine_def w2 e
    by (simp add: observe_def inventoryOf_def module_world ref arr)
  have c2: "success (fst (useItem ''health-potion'' (heap MODULE_WORLD)
                    (stateObjects MODULE_WORLD gameEngine_state))) = True"
    unfolding e using useItem_success [OF before, where amount = 30]
    by (simp add: item_facts module_world)
  have c3: "fst (useItem ''health-potion''
        (heap (callerMutate (OverwriteInventory []) (fst (getState gameEngine_state MODULE_WORLD))
                 (snd (getState gameEngine_state MODULE_WORLD))))
        (stateObjects
           (callerMutate (OverwriteInventory []) (fst (getState gameEngine_state MODULE_WORLD))
              (snd (getState gameEngine_state MODULE_WORLD)))
           gameEngine_state))
     = \<lparr> success = False, message = ''Item not found'', healthRestored = None \<rparr>"
    unfolding w2 using useItem_not_found [OF after] by simp
  from c1 c2 c3 show ?thesis by blast
qed

end
